theory Spec2Isabelle
  imports Main "HOL-Library.Char_ord" "HOL-Library.List_Lexorder"
begin

section \<open>Documents of the library catalog\<close>

text \<open>
  The four mongoose models. Identifiers are opaque strings: every non-empty string is
  taken to be the string form of an ObjectId, and the empty string is no identifier.
  Dates are instants (milliseconds), and an absent or null date is \<open>None\<close>. The
  \<open>_id\<close> field of each model is written \<open>author_id\<close>, \<open>genre_id\<close>,
  \<open>book_id\<close>, \<open>bookinstance_id\<close>.
\<close>

type_synonym oid = string

record author =
  author_id :: oid
  first_name :: string
  family_name :: string
  date_of_birth :: "int option"
  date_of_death :: "int option"

record genre =
  genre_id :: oid
  name :: string

record book =
  book_id :: oid
  title :: string
  author :: oid
  summary :: string
  isbn :: string
  genre :: "oid list"

record bookinstance =
  bookinstance_id :: oid
  book :: oid
  imprint :: string
  status :: string
  due_back :: "int option"

text \<open>The \<open>url\<close> virtuals of models/author.js, models/book.js and models/bookinstance.js.\<close>

definition author_url :: "author \<Rightarrow> string" where
  "author_url a = ''/catalog/author/'' @ author_id a"

definition book_url :: "book \<Rightarrow> string" where
  "book_url b = ''/catalog/book/'' @ book_id b"

definition bookinstance_url :: "bookinstance \<Rightarrow> string" where
  "bookinstance_url i = ''/catalog/bookinstance/'' @ bookinstance_id i"

text \<open>
  Modelled from the spec: models/genre.js is not among the sources. The spec gives a
  Genre an identifier and a required name, and a canonical URL path of the same shape
  as the other entities (\<open>/catalog/<entity>/:id\<close>).
\<close>

definition genre_url :: "genre \<Rightarrow> string" where
  "genre_url g = ''/catalog/genre/'' @ genre_id g"

text \<open>The virtual \<open>name\<close> of an author: family name, comma, first name.\<close>

definition author_name :: "author \<Rightarrow> string" where
  "author_name a = family_name a @ '', '' @ first_name a"

section \<open>Errors, the store and its queries\<close>

text \<open>
  A JavaScript error object as the handlers and the error middleware use it: a message
  and an optional \<open>status\<close> property.
\<close>

record error =
  message :: string
  err_status :: "nat option"

datatype coll = AuthorC | GenreC | BookC | BookInstanceC

datatype opk = Find | FindById | FindOne | CountDocuments | Save
  | FindByIdAndUpdate | FindByIdAndRemove

text \<open>
  The store: one document list per collection, and the failures of the connection.
  \<open>fault db c k = Some e\<close> says that operation \<open>k\<close> on collection \<open>c\<close> calls back
  with the error \<open>e\<close>.
\<close>

record db =
  authors :: "author list"
  genres :: "genre list"
  books :: "book list"
  bookinstances :: "bookinstance list"
  fault :: "coll \<Rightarrow> opk \<Rightarrow> error option"

definition query :: "db \<Rightarrow> coll \<Rightarrow> opk \<Rightarrow> 'a \<Rightarrow> error + 'a" where
  "query d c k x = (case fault d c k of Some e \<Rightarrow> Inl e | None \<Rightarrow> Inr x)"

text \<open>
  \<open>async.parallel\<close> with two and with three named tasks: the final callback gets
  the first error, or every result. The tasks are read-only, so the model evaluates
  them in the order of their keys.
\<close>

definition parallel2 :: "error + 'a \<Rightarrow> error + 'b \<Rightarrow> error + ('a \<times> 'b)" where
  "parallel2 r1 r2 =
     (case r1 of Inl e \<Rightarrow> Inl e
      | Inr a \<Rightarrow> (case r2 of Inl e \<Rightarrow> Inl e | Inr b \<Rightarrow> Inr (a, b)))"

definition parallel3 ::
    "error + 'a \<Rightarrow> error + 'b \<Rightarrow> error + 'c \<Rightarrow> error + ('a \<times> 'b \<times> 'c)" where
  "parallel3 r1 r2 r3 =
     (case r1 of Inl e \<Rightarrow> Inl e | Inr a \<Rightarrow> map_sum id (Pair a) (parallel2 r2 r3))"

text \<open>
  \<open>async.parallel\<close> over a list of named count tasks, as the home page uses it:
  the error of the first failing task (if any) and the results gathered before it.
\<close>

fun parallel_counts ::
    "(string \<times> (error + nat)) list \<Rightarrow> error option \<times> (string \<times> nat) list" where
  "parallel_counts [] = (None, [])"
| "parallel_counts ((k, Inl e) # ts) = (Some e, [])"
| "parallel_counts ((k, Inr n) # ts) =
     (case parallel_counts ts of (err, rs) \<Rightarrow> (err, (k, n) # rs))"

subsection \<open>Reads\<close>

definition Author_find :: "db \<Rightarrow> error + author list" where
  "Author_find d = query d AuthorC Find (authors d)"

definition Author_find_sorted :: "db \<Rightarrow> error + author list" where
  "Author_find_sorted d = query d AuthorC Find (sort_key family_name (authors d))"

definition Author_findById :: "db \<Rightarrow> oid \<Rightarrow> error + author option" where
  "Author_findById d i = query d AuthorC FindById (find (\<lambda>a. author_id a = i) (authors d))"

definition Genre_find :: "db \<Rightarrow> error + genre list" where
  "Genre_find d = query d GenreC Find (genres d)"

definition Genre_find_sorted :: "db \<Rightarrow> error + genre list" where
  "Genre_find_sorted d = query d GenreC Find (sort_key name (genres d))"

definition Genre_findById :: "db \<Rightarrow> oid \<Rightarrow> error + genre option" where
  "Genre_findById d i = query d GenreC FindById (find (\<lambda>g. genre_id g = i) (genres d))"

definition Genre_findOne_name :: "db \<Rightarrow> string \<Rightarrow> error + genre option" where
  "Genre_findOne_name d n = query d GenreC FindOne (find (\<lambda>g. name g = n) (genres d))"

definition Book_find :: "db \<Rightarrow> error + book list" where
  "Book_find d = query d BookC Find (books d)"

definition Book_find_author :: "db \<Rightarrow> oid \<Rightarrow> error + book list" where
  "Book_find_author d i = query d BookC Find (filter (\<lambda>b. author b = i) (books d))"

definition Book_find_genre :: "db \<Rightarrow> oid \<Rightarrow> error + book list" where
  "Book_find_genre d i = query d BookC Find (filter (\<lambda>b. i \<in> set (genre b)) (books d))"

definition BookInstance_find_book :: "db \<Rightarrow> oid \<Rightarrow> error + bookinstance list" where
  "BookInstance_find_book d i =
     query d BookInstanceC Find (filter (\<lambda>c. book c = i) (bookinstances d))"

text \<open>
  \<open>populate\<close> replaces a stored reference by the referenced document (null when it
  does not resolve; unresolved entries of an array are dropped). It reads the
  referenced collection, so it fails when that collection's \<open>find\<close> fails; an
  empty array of references is populated without a read.
\<close>

record populated_book =
  the_book :: book
  the_author :: "author option"
  the_genres :: "genre list"

record populated_bookinstance =
  the_bookinstance :: bookinstance
  the_instance_book :: "book option"

definition populate_author :: "db \<Rightarrow> book \<Rightarrow> error + author option" where
  "populate_author d b = query d AuthorC Find (find (\<lambda>a. author_id a = author b) (authors d))"

definition populate_genre :: "db \<Rightarrow> book \<Rightarrow> error + genre list" where
  "populate_genre d b =
     (if genre b = [] then Inr []
      else query d GenreC Find
             (concat (map (\<lambda>i. case find (\<lambda>g. genre_id g = i) (genres d) of
                                  None \<Rightarrow> [] | Some g \<Rightarrow> [g]) (genre b))))"

definition populate_book :: "db \<Rightarrow> bookinstance \<Rightarrow> error + populated_bookinstance" where
  "populate_book d c =
     query d BookC Find
       \<lparr>the_bookinstance = c, the_instance_book = find (\<lambda>b. book_id b = book c) (books d)\<rparr>"

definition populate_author_genre :: "db \<Rightarrow> book \<Rightarrow> error + populated_book" where
  "populate_author_genre d b =
     (case populate_author d b of Inl e \<Rightarrow> Inl e
      | Inr a \<Rightarrow> (case populate_genre d b of Inl e \<Rightarrow> Inl e
          | Inr gs \<Rightarrow> Inr \<lparr>the_book = b, the_author = a, the_genres = gs\<rparr>))"

fun populate_each :: "('a \<Rightarrow> error + 'b) \<Rightarrow> 'a list \<Rightarrow> error + 'b list" where
  "populate_each f [] = Inr []"
| "populate_each f (x # xs) =
     (case f x of Inl e \<Rightarrow> Inl e
      | Inr y \<Rightarrow> (case populate_each f xs of Inl e \<Rightarrow> Inl e | Inr ys \<Rightarrow> Inr (y # ys)))"

definition Book_findById_populated :: "db \<Rightarrow> oid \<Rightarrow> error + populated_book option" where
  "Book_findById_populated d i =
     (case query d BookC FindById (find (\<lambda>b. book_id b = i) (books d)) of
        Inl e \<Rightarrow> Inl e
      | Inr None \<Rightarrow> Inr None
      | Inr (Some b) \<Rightarrow> map_sum id Some (populate_author_genre d b))"

definition BookInstance_findById_populated ::
    "db \<Rightarrow> oid \<Rightarrow> error + populated_bookinstance option" where
  "BookInstance_findById_populated d i =
     (case query d BookInstanceC FindById
             (find (\<lambda>c. bookinstance_id c = i) (bookinstances d)) of
        Inl e \<Rightarrow> Inl e
      | Inr None \<Rightarrow> Inr None
      | Inr (Some c) \<Rightarrow> map_sum id Some (populate_book d c))"

subsection \<open>Writes\<close>

text \<open>
  \<open>save\<close> of a new document validates it against its schema and inserts it; the
  store refuses a second document with the same \<open>_id\<close>. \<open>findByIdAndRemove\<close>
  deletes the first document with the identifier (none when it does not resolve).
  \<open>findByIdAndUpdate\<close> with the options \<open>{}\<close> sets, in the document with the
  identifier, every path the candidate has, and calls back with the document as it was
  before (null when the identifier does not resolve); it runs no schema validators. The
  candidates of Genre, Book and BookInstance have every path of their schema, so the
  stored document becomes the candidate. The candidate of an Author lacks a date path
  whose form field was undefined: the update is given as the function that sets the
  paths the candidate has.
\<close>

definition validation_failed :: "string \<Rightarrow> error" where
  "validation_failed model = \<lparr>message = model @ '' validation failed'', err_status = None\<rparr>"

definition duplicate_key :: error where
  "duplicate_key = \<lparr>message = ''E11000 duplicate key error'', err_status = None\<rparr>"

fun remove_by :: "('a \<Rightarrow> bool) \<Rightarrow> 'a list \<Rightarrow> 'a list" where
  "remove_by p [] = []"
| "remove_by p (x # xs) = (if p x then xs else x # remove_by p xs)"

fun update_by :: "('a \<Rightarrow> bool) \<Rightarrow> ('a \<Rightarrow> 'a) \<Rightarrow> 'a list \<Rightarrow> 'a list" where
  "update_by p f [] = []"
| "update_by p f (x # xs) = (if p x then f x # xs else x # update_by p f xs)"

fun replace_by :: "('a \<Rightarrow> bool) \<Rightarrow> 'a \<Rightarrow> 'a list \<Rightarrow> 'a list" where
  "replace_by p y [] = []"
| "replace_by p y (x # xs) = (if p x then y # xs else x # replace_by p y xs)"

text \<open>The Author schema: both names required, at most 100 characters.\<close>

definition author_schema_ok :: "author \<Rightarrow> bool" where
  "author_schema_ok a \<longleftrightarrow>
     first_name a \<noteq> [] \<and> length (first_name a) \<le> 100 \<and>
     family_name a \<noteq> [] \<and> length (family_name a) \<le> 100"

text \<open>The Book schema: title, author, summary and isbn required.\<close>

definition book_schema_ok :: "book \<Rightarrow> bool" where
  "book_schema_ok b \<longleftrightarrow> title b \<noteq> [] \<and> author b \<noteq> [] \<and> summary b \<noteq> [] \<and> isbn b \<noteq> []"

text \<open>The BookInstance schema: book and imprint required, status one of four values.\<close>

definition bookinstance_schema_ok :: "bookinstance \<Rightarrow> bool" where
  "bookinstance_schema_ok c \<longleftrightarrow>
     book c \<noteq> [] \<and> imprint c \<noteq> [] \<and>
     status c \<in> set [''Available'', ''Maintenance'', ''Loaned'', ''Reserved'']"

text \<open>
  Modelled from the spec: the Genre schema of the absent models/genre.js; the spec
  names one constraint of the data model, a required name.
\<close>

definition genre_schema_ok :: "genre \<Rightarrow> bool" where
  "genre_schema_ok g \<longleftrightarrow> name g \<noteq> []"

definition Author_save :: "db \<Rightarrow> author \<Rightarrow> error + db" where
  "Author_save d a =
     (if \<not> author_schema_ok a then Inl (validation_failed ''Author'')
      else case fault d AuthorC Save of Some e \<Rightarrow> Inl e
        | None \<Rightarrow> if author_id a \<in> set (map author_id (authors d)) then Inl duplicate_key
                  else Inr (d\<lparr>authors := authors d @ [a]\<rparr>))"

definition Genre_save :: "db \<Rightarrow> genre \<Rightarrow> error + db" where
  "Genre_save d g =
     (if \<not> genre_schema_ok g then Inl (validation_failed ''Genre'')
      else case fault d GenreC Save of Some e \<Rightarrow> Inl e
        | None \<Rightarrow> if genre_id g \<in> set (map genre_id (genres d)) then Inl duplicate_key
                  else Inr (d\<lparr>genres := genres d @ [g]\<rparr>))"

definition Book_save :: "db \<Rightarrow> book \<Rightarrow> error + db" where
  "Book_save d b =
     (if \<not> book_schema_ok b then Inl (validation_failed ''Book'')
      else case fault d BookC Save of Some e \<Rightarrow> Inl e
        | None \<Rightarrow> if book_id b \<in> set (map book_id (books d)) then Inl duplicate_key
                  else Inr (d\<lparr>books := books d @ [b]\<rparr>))"

definition BookInstance_save :: "db \<Rightarrow> bookinstance \<Rightarrow> error + db" where
  "BookInstance_save d c =
     (if \<not> bookinstance_schema_ok c then Inl (validation_failed ''BookInstance'')
      else case fault d BookInstanceC Save of Some e \<Rightarrow> Inl e
        | None \<Rightarrow>
            if bookinstance_id c \<in> set (map bookinstance_id (bookinstances d))
            then Inl duplicate_key
            else Inr (d\<lparr>bookinstances := bookinstances d @ [c]\<rparr>))"

definition Author_findByIdAndRemove :: "db \<Rightarrow> oid \<Rightarrow> error + db" where
  "Author_findByIdAndRemove d i =
     query d AuthorC FindByIdAndRemove
       (d\<lparr>authors := remove_by (\<lambda>a. author_id a = i) (authors d)\<rparr>)"

definition Genre_findByIdAndRemove :: "db \<Rightarrow> oid \<Rightarrow> error + db" where
  "Genre_findByIdAndRemove d i =
     query d GenreC FindByIdAndRemove
       (d\<lparr>genres := remove_by (\<lambda>g. genre_id g = i) (genres d)\<rparr>)"

definition Book_findByIdAndRemove :: "db \<Rightarrow> oid \<Rightarrow> error + db" where
  "Book_findByIdAndRemove d i =
     query d BookC FindByIdAndRemove
       (d\<lparr>books := remove_by (\<lambda>b. book_id b = i) (books d)\<rparr>)"

definition BookInstance_findByIdAndRemove :: "db \<Rightarrow> oid \<Rightarrow> error + db" where
  "BookInstance_findByIdAndRemove d i =
     query d BookInstanceC FindByIdAndRemove
       (d\<lparr>bookinstances := remove_by (\<lambda>c. bookinstance_id c = i) (bookinstances d)\<rparr>)"

definition Author_findByIdAndUpdate ::
    "db \<Rightarrow> oid \<Rightarrow> (author \<Rightarrow> author) \<Rightarrow> error + (author option \<times> db)" where
  "Author_findByIdAndUpdate d i set_paths =
     query d AuthorC FindByIdAndUpdate
       (find (\<lambda>x. author_id x = i) (authors d),
        d\<lparr>authors := update_by (\<lambda>x. author_id x = i) set_paths (authors d)\<rparr>)"

definition Genre_findByIdAndUpdate :: "db \<Rightarrow> oid \<Rightarrow> genre \<Rightarrow> error + (genre option \<times> db)" where
  "Genre_findByIdAndUpdate d i g =
     query d GenreC FindByIdAndUpdate
       (find (\<lambda>x. genre_id x = i) (genres d),
        d\<lparr>genres := replace_by (\<lambda>x. genre_id x = i) g (genres d)\<rparr>)"

definition Book_findByIdAndUpdate :: "db \<Rightarrow> oid \<Rightarrow> book \<Rightarrow> error + (book option \<times> db)" where
  "Book_findByIdAndUpdate d i b =
     query d BookC FindByIdAndUpdate
       (find (\<lambda>x. book_id x = i) (books d),
        d\<lparr>books := replace_by (\<lambda>x. book_id x = i) b (books d)\<rparr>)"

definition BookInstance_findByIdAndUpdate ::
    "db \<Rightarrow> oid \<Rightarrow> bookinstance \<Rightarrow> error + (bookinstance option \<times> db)" where
  "BookInstance_findByIdAndUpdate d i c =
     query d BookInstanceC FindByIdAndUpdate
       (find (\<lambda>x. bookinstance_id x = i) (bookinstances d),
        d\<lparr>bookinstances := replace_by (\<lambda>x. bookinstance_id x = i) c (bookinstances d)\<rparr>)"

section \<open>Validation and sanitization (express-validator over validator.js)\<close>

text \<open>
  The library functions the chains call, over strings of ASCII characters:
  \<open>trim\<close> strips whitespace at both ends, \<open>escape\<close> replaces the eight HTML
  special characters by entities, \<open>isLength\<close> with \<open>min\<close> compares the length,
  \<open>isAlphanumeric\<close> wants one or more letters and digits. A field missing from the
  form reaches a chain as the empty string (the library converts the value to a string
  before a standard validator or sanitizer sees it).
\<close>

definition is_space :: "char \<Rightarrow> bool" where
  "is_space c \<longleftrightarrow> c \<in> set [CHR '' '', CHR 0x09, CHR 0x0A, CHR 0x0B, CHR 0x0C, CHR 0x0D]"

definition trim :: "string \<Rightarrow> string" where
  "trim s = rev (dropWhile is_space (rev (dropWhile is_space s)))"

definition escape_char :: "char \<Rightarrow> string" where
  "escape_char c =
     (if c = CHR ''&'' then ''&amp;''
      else if c = CHR 0x22 then ''&quot;''
      else if c = CHR 0x27 then ''&#x27;''
      else if c = CHR ''<'' then ''&lt;''
      else if c = CHR ''>'' then ''&gt;''
      else if c = CHR ''/'' then ''&#x2F;''
      else if c = CHR 0x5C then ''&#x5C;''
      else if c = CHR 0x60 then ''&#96;''
      else [c])"

definition escape :: "string \<Rightarrow> string" where
  "escape s = concat (map escape_char s)"

definition is_alnum :: "char \<Rightarrow> bool" where
  "is_alnum c \<longleftrightarrow>
     (let n = (of_char c :: nat)
      in (48 \<le> n \<and> n \<le> 57) \<or> (65 \<le> n \<and> n \<le> 90) \<or> (97 \<le> n \<and> n \<le> 122))"

definition isAlphanumeric :: "string \<Rightarrow> bool" where
  "isAlphanumeric s \<longleftrightarrow> s \<noteq> [] \<and> list_all is_alnum s"

text \<open>
  \<open>isISO8601\<close> and \<open>toDate\<close> are taken as parameters: the date grammar of the
  library is not part of this repository. \<open>toDate\<close> gives \<open>None\<close> for null.
\<close>

record validator =
  isISO8601 :: "string \<Rightarrow> bool"
  toDate :: "string \<Rightarrow> int option"

text \<open>One entry of \<open>errors.array()\<close>: the field, the message and the offending value.\<close>

record verror =
  param :: string
  msg :: string
  val :: string

text \<open>A date field of a request body: as submitted, and as the chain leaves it.\<close>

datatype date_field = Undefined | Str string | DateValue int | Null

text \<open>The genre field of a book form: no box ticked, one box, several boxes.\<close>

datatype genre_field = GUndefined | GScalar string | GArray "string list"

text \<open>\<open>body(p, m).trim().isLength({ min: n }).escape()\<close>\<close>

definition trim_isLength_escape ::
    "string \<Rightarrow> string \<Rightarrow> nat \<Rightarrow> string \<Rightarrow> string \<times> verror list" where
  "trim_isLength_escape p m n raw =
     (let t = trim raw
      in (escape t, if n \<le> length t then [] else [\<lparr>param = p, msg = m, val = t\<rparr>]))"

text \<open>
  \<open>body(p).trim().isLength({ min: 1 }).escape().withMessage(m1).isAlphanumeric().withMessage(m2)\<close>:
  the first message belongs to the length check, the second to the alphanumeric check,
  which sees the escaped value.
\<close>

definition name_chain :: "string \<Rightarrow> string \<Rightarrow> string \<Rightarrow> string \<Rightarrow> string \<times> verror list" where
  "name_chain p m1 m2 raw =
     (let t = trim raw; v = escape t
      in (v, (if 1 \<le> length t then [] else [\<lparr>param = p, msg = m1, val = t\<rparr>]) @
             (if isAlphanumeric v then [] else [\<lparr>param = p, msg = m2, val = v\<rparr>])))"

text \<open>
  \<open>body(p, m).optional({ checkFalsy: true }).isISO8601().toDate()\<close>: a falsy value
  (absent, null, the empty string) stops the chain and stays as it is; any other string
  is checked and converted.
\<close>

definition date_chain ::
    "validator \<Rightarrow> string \<Rightarrow> string \<Rightarrow> date_field \<Rightarrow> date_field \<times> verror list" where
  "date_chain lib p m f =
     (case f of
        Str s \<Rightarrow>
          if s = [] then (f, [])
          else ((case toDate lib s of None \<Rightarrow> Null | Some t \<Rightarrow> DateValue t),
                if isISO8601 lib s then [] else [\<lparr>param = p, msg = m, val = s\<rparr>])
      | _ \<Rightarrow> (f, []))"

subsection \<open>Request bodies\<close>

record author_body =
  body_first_name :: string
  body_family_name :: string
  body_date_of_birth :: date_field
  body_date_of_death :: date_field

record genre_body =
  body_name :: string

record book_body =
  body_title :: string
  body_author :: string
  body_summary :: string
  body_isbn :: string
  body_genre :: genre_field

record bookinstance_body =
  body_book :: string
  body_imprint :: string
  body_status :: string
  body_due_back :: date_field

text \<open>The validation chains of the Author forms (create and update have the same).\<close>

definition author_validate :: "validator \<Rightarrow> author_body \<Rightarrow> author_body \<times> verror list" where
  "author_validate lib b =
     (let (fn, e1) = name_chain ''first_name'' ''First name must be specified.''
                       ''First name has non-alphanumeric characters.'' (body_first_name b);
          (gn, e2) = name_chain ''family_name'' ''Family name must be specified.''
                       ''Family name has non-alphanumeric characters.'' (body_family_name b);
          (db, e3) = date_chain lib ''date_of_birth'' ''Invalid date of birth''
                       (body_date_of_birth b);
          (dd, e4) = date_chain lib ''date_of_death'' ''Invalid date of death''
                       (body_date_of_death b)
      in (\<lparr>body_first_name = fn, body_family_name = gn,
            body_date_of_birth = db, body_date_of_death = dd\<rparr>, e1 @ e2 @ e3 @ e4))"

text \<open>The chain of the Genre create form, and that of the Genre update form.\<close>

definition genre_create_validate :: "genre_body \<Rightarrow> genre_body \<times> verror list" where
  "genre_create_validate b =
     (let (n, e) = trim_isLength_escape ''name'' ''Genre name required'' 1 (body_name b)
      in (\<lparr>body_name = n\<rparr>, e))"

definition genre_update_validate :: "genre_body \<Rightarrow> genre_body \<times> verror list" where
  "genre_update_validate b =
     (let (n, e) = trim_isLength_escape ''name''
                     ''Genre name must contain at least 3 characters'' 3 (body_name b)
      in (\<lparr>body_name = n\<rparr>, e))"

text \<open>
  The first middleware of both Book POST handlers: convert the genre to an array.
\<close>

definition genre_to_array :: "book_body \<Rightarrow> book_body" where
  "genre_to_array b =
     (case body_genre b of
        GArray xs \<Rightarrow> b
      | GUndefined \<Rightarrow> b\<lparr>body_genre := GArray []\<rparr>
      | GScalar s \<Rightarrow> b\<lparr>body_genre := GArray [s]\<rparr>)"

text \<open>
  \<open>body('genre.*').escape()\<close>: the wildcard selects the elements of an array, and
  nothing of a value that is not one.
\<close>

definition escape_each :: "genre_field \<Rightarrow> genre_field" where
  "escape_each f = (case f of GArray xs \<Rightarrow> GArray (map escape xs) | _ \<Rightarrow> f)"

definition book_validate :: "book_body \<Rightarrow> book_body \<times> verror list" where
  "book_validate b =
     (let (t, e1) = trim_isLength_escape ''title'' ''Title must not be empty.'' 1 (body_title b);
          (a, e2) = trim_isLength_escape ''author'' ''Author must not be empty.'' 1 (body_author b);
          (s, e3) = trim_isLength_escape ''summary'' ''Summary must not be empty.'' 1
                      (body_summary b);
          (i, e4) = trim_isLength_escape ''isbn'' ''ISBN must not be empty'' 1 (body_isbn b)
      in (\<lparr>body_title = t, body_author = a, body_summary = s, body_isbn = i,
            body_genre = escape_each (body_genre b)\<rparr>, e1 @ e2 @ e3 @ e4))"

definition bookinstance_validate ::
    "validator \<Rightarrow> bookinstance_body \<Rightarrow> bookinstance_body \<times> verror list" where
  "bookinstance_validate lib b =
     (let (k, e1) = trim_isLength_escape ''book'' ''Book must be specified'' 1 (body_book b);
          (i, e2) = trim_isLength_escape ''imprint'' ''Imprint must be specified'' 1
                      (body_imprint b);
          (d, e3) = date_chain lib ''due_back'' ''Invalid date'' (body_due_back b)
      in (\<lparr>body_book = k, body_imprint = i, body_status = escape (body_status b),
            body_due_back = d\<rparr>, e1 @ e2 @ e3))"

subsection \<open>Candidate documents\<close>

text \<open>
  \<open>new Model({...})\<close>: the identifier is the one given, or a fresh one the driver
  generates (a parameter of the handler). A date field that holds no date is stored as
  null; an absent \<open>due_back\<close> takes the schema default, the current time.
\<close>

definition cast_date :: "date_field \<Rightarrow> int option" where
  "cast_date f = (case f of DateValue t \<Rightarrow> Some t | _ \<Rightarrow> None)"

text \<open>
  The cast of a form value to an ObjectId: a non-empty value is taken to be the string
  form of an identifier; the empty string is none, and the path of a candidate that is
  given it stays undefined.
\<close>

definition cast_ObjectId :: "string \<Rightarrow> oid option" where
  "cast_ObjectId s = (if s = [] then None else Some s)"

definition cast_genre :: "genre_field \<Rightarrow> oid list" where
  "cast_genre f = (case f of GArray xs \<Rightarrow> xs | GScalar s \<Rightarrow> [s] | GUndefined \<Rightarrow> [])"

definition new_Author :: "oid \<Rightarrow> author_body \<Rightarrow> author" where
  "new_Author i b =
     \<lparr>author_id = i, first_name = body_first_name b, family_name = body_family_name b,
      date_of_birth = cast_date (body_date_of_birth b),
      date_of_death = cast_date (body_date_of_death b)\<rparr>"

text \<open>
  What the update of an Author sets in the stored document: the paths of the candidate
  built from the body, that is both names, and each date unless its field was
  undefined in the body (an empty string or null is there, as null).
\<close>

definition set_Author_paths :: "author_body \<Rightarrow> author \<Rightarrow> author \<Rightarrow> author" where
  "set_Author_paths b candidate stored =
     stored\<lparr>first_name := first_name candidate, family_name := family_name candidate,
       date_of_birth :=
         (if body_date_of_birth b = Undefined then date_of_birth stored
          else date_of_birth candidate),
       date_of_death :=
         (if body_date_of_death b = Undefined then date_of_death stored
          else date_of_death candidate)\<rparr>"

definition new_Genre :: "oid \<Rightarrow> genre_body \<Rightarrow> genre" where
  "new_Genre i b = \<lparr>genre_id = i, name = body_name b\<rparr>"

definition new_Book :: "oid \<Rightarrow> book_body \<Rightarrow> book" where
  "new_Book i b =
     \<lparr>book_id = i, title = body_title b, author = body_author b, summary = body_summary b,
      isbn = body_isbn b, genre = cast_genre (body_genre b)\<rparr>"

definition new_BookInstance :: "int \<Rightarrow> oid \<Rightarrow> bookinstance_body \<Rightarrow> bookinstance" where
  "new_BookInstance now i b =
     \<lparr>bookinstance_id = i, book = body_book b, imprint = body_imprint b,
      status = body_status b,
      due_back = (case body_due_back b of Undefined \<Rightarrow> Some now | f \<Rightarrow> cast_date f)\<rparr>"

section \<open>Responses\<close>

datatype author_form_value = Author_body author_body | Author_doc author

datatype book_form_value = Book_doc book | Book_populated populated_book

datatype bookinstance_form_value =
  BookInstance_doc bookinstance | BookInstance_populated populated_bookinstance

text \<open>An entry of the genre checklist of the book form: the genre and its \<open>checked\<close> flag.\<close>

record genre_option =
  option_genre :: genre
  checked :: bool

text \<open>
  One constructor for each view, with the variables the handler passes to it. A
  variable the handler may leave out, or may pass as null, is an option.
\<close>

datatype page =
    View_index string "error option" "(string \<times> nat) list"
  | View_author_list string "author list"
  | View_author_detail string author "book list"
  | View_author_form string "author_form_value option" "verror list option"
  | View_author_delete string "author option" "book list"
  | View_book_list string "(book \<times> author option) list"
  | View_book_detail string populated_book "bookinstance list"
  | View_book_form string "author list" "genre_option list" "book_form_value option"
      "verror list option"
  | View_book_delete string "populated_book option" "bookinstance list"
  | View_genre_list string "genre list"
  | View_genre_detail string genre "book list"
  | View_genre_form string "genre option" "verror list option"
  | View_genre_delete string "genre option" "book list"
  | View_bookinstance_list string "populated_bookinstance list"
  | View_bookinstance_detail string populated_bookinstance
  | View_bookinstance_form string "book list" "oid option" "verror list option"
      "bookinstance_form_value option"
  | View_bookinstance_delete string "populated_bookinstance option"
  | View_error nat string "error option"

text \<open>
  What a handler does with \<open>res\<close> and \<open>next\<close>, in the order it does it:
  \<open>res.render\<close>, \<open>res.redirect\<close>, \<open>next(err)\<close>, or an exception it throws.
\<close>

datatype action = Render page | Redirect string | Next error | Raise string

definition not_found :: "string \<Rightarrow> error" where
  "not_found m = \<lparr>message = m, err_status = Some 404\<rparr>"

section \<open>The error handler of the application\<close>

text \<open>
  \<open>res.locals.message = err.message; res.locals.error = (env is development) ? err : {};
  res.status(err.status || 500); res.render('error')\<close>. A status of 0 is falsy.
\<close>

definition error_handler :: "string \<Rightarrow> error \<Rightarrow> action" where
  "error_handler env err =
     Render (View_error
       (case err_status err of None \<Rightarrow> 500 | Some s \<Rightarrow> if s = 0 then 500 else s)
       (message err)
       (if env = ''development'' then Some err else None))"

section \<open>Author controller\<close>

definition author_list :: "db \<Rightarrow> action list" where
  "author_list d =
     (case Author_find_sorted d of
        Inl err \<Rightarrow> [Next err]
      | Inr list_authors \<Rightarrow> [Render (View_author_list ''Author List'' list_authors)])"

definition author_detail :: "db \<Rightarrow> oid \<Rightarrow> action list" where
  "author_detail d i =
     (case parallel2 (Author_findById d i) (Book_find_author d i) of
        Inl err \<Rightarrow> [Next err]
      | Inr (None, authors_books) \<Rightarrow> [Next (not_found ''Author not found'')]
      | Inr (Some a, authors_books) \<Rightarrow>
          [Render (View_author_detail ''Author Detail'' a authors_books)])"

definition author_create_get :: "action list" where
  "author_create_get = [Render (View_author_form ''Create Author'' None None)]"

definition author_create_post ::
    "validator \<Rightarrow> db \<Rightarrow> oid \<Rightarrow> author_body \<Rightarrow> action list \<times> db" where
  "author_create_post lib d fresh raw =
     (let (body, errors) = author_validate lib raw
      in if errors \<noteq> []
         then ([Render (View_author_form ''Create Author'' (Some (Author_body body))
                   (Some errors))], d)
         else (let author = new_Author fresh body
               in case Author_save d author of
                    Inl err \<Rightarrow> ([Next err], d)
                  | Inr d' \<Rightarrow> ([Redirect (author_url author)], d')))"

text \<open>
  After the redirect for a missing author there is no \<open>return\<close>: the handler goes on
  to \<open>res.render\<close> with the null author.
\<close>

definition author_delete_get :: "db \<Rightarrow> oid \<Rightarrow> action list" where
  "author_delete_get d i =
     (case parallel2 (Author_findById d i) (Book_find_author d i) of
        Inl err \<Rightarrow> [Next err]
      | Inr (a, authors_books) \<Rightarrow>
          (if a = None then [Redirect ''/catalog/authors''] else []) @
          [Render (View_author_delete ''Delete Author'' a authors_books)])"

definition author_delete_post :: "db \<Rightarrow> oid \<Rightarrow> action list \<times> db" where
  "author_delete_post d authorid =
     (case parallel2 (Author_findById d authorid) (Book_find_author d authorid) of
        Inl err \<Rightarrow> ([Next err], d)
      | Inr (a, authors_books) \<Rightarrow>
          if length authors_books > 0
          then ([Render (View_author_delete ''Delete Author'' a authors_books)], d)
          else (case Author_findByIdAndRemove d authorid of
                  Inl err \<Rightarrow> ([Next err], d)
                | Inr d' \<Rightarrow> ([Redirect ''/catalog/authors''], d')))"

definition author_update_get :: "db \<Rightarrow> oid \<Rightarrow> action list" where
  "author_update_get d i =
     (case Author_findById d i of
        Inl err \<Rightarrow> [Next err]
      | Inr None \<Rightarrow> [Next (not_found ''Author not found'')]
      | Inr (Some a) \<Rightarrow> [Render (View_author_form ''Update Author'' (Some (Author_doc a)) None)])"

text \<open>
  \<open>theauthor.url\<close> in the callback of the update is a property of null when no
  document has the identifier: a TypeError.
\<close>

definition author_update_post ::
    "validator \<Rightarrow> db \<Rightarrow> oid \<Rightarrow> author_body \<Rightarrow> action list \<times> db" where
  "author_update_post lib d i raw =
     (let (body, errors) = author_validate lib raw;
          author = new_Author i body
      in if errors \<noteq> []
         then ([Render (View_author_form ''Update Author'' (Some (Author_doc author))
                   (Some errors))], d)
         else (case Author_findByIdAndUpdate d i (set_Author_paths body author) of
                 Inl err \<Rightarrow> ([Next err], d)
               | Inr (None, d') \<Rightarrow> ([Raise ''TypeError''], d')
               | Inr (Some theauthor, d') \<Rightarrow> ([Redirect (author_url theauthor)], d')))"

section \<open>Genre controller\<close>

definition genre_list :: "db \<Rightarrow> action list" where
  "genre_list d =
     (case Genre_find_sorted d of
        Inl err \<Rightarrow> [Next err]
      | Inr list_genres \<Rightarrow> [Render (View_genre_list ''Genre List'' list_genres)])"

definition genre_detail :: "db \<Rightarrow> oid \<Rightarrow> action list" where
  "genre_detail d i =
     (case parallel2 (Genre_findById d i) (Book_find_genre d i) of
        Inl err \<Rightarrow> [Next err]
      | Inr (None, genre_books) \<Rightarrow> [Next (not_found ''Genre not found'')]
      | Inr (Some g, genre_books) \<Rightarrow> [Render (View_genre_detail ''Genre Detail'' g genre_books)])"

definition genre_create_get :: "action list" where
  "genre_create_get = [Render (View_genre_form ''Create Genre'' None None)]"

definition genre_create_post :: "db \<Rightarrow> oid \<Rightarrow> genre_body \<Rightarrow> action list \<times> db" where
  "genre_create_post d fresh raw =
     (let (body, errors) = genre_create_validate raw;
          g = new_Genre fresh body
      in if errors \<noteq> []
         then ([Render (View_genre_form ''Create Genre'' (Some g) (Some errors))], d)
         else (case Genre_findOne_name d (body_name body) of
                 Inl err \<Rightarrow> ([Next err], d)
               | Inr (Some found_genre) \<Rightarrow> ([Redirect (genre_url found_genre)], d)
               | Inr None \<Rightarrow>
                   (case Genre_save d g of
                      Inl err \<Rightarrow> ([Next err], d)
                    | Inr d' \<Rightarrow> ([Redirect (genre_url g)], d'))))"

definition genre_delete_get :: "db \<Rightarrow> oid \<Rightarrow> action list" where
  "genre_delete_get d i =
     (case parallel2 (Genre_findById d i) (Book_find_genre d i) of
        Inl err \<Rightarrow> [Next err]
      | Inr (g, genre_books) \<Rightarrow>
          (if g = None then [Redirect ''/catalog/genres''] else []) @
          [Render (View_genre_delete ''Delete Genre'' g genre_books)])"

text \<open>
  The genre and its books are looked up by the identifier of the URL
  (\<open>req.params.id\<close>); the document removed is the one of the form field
  (\<open>req.body.id\<close>).
\<close>

definition genre_delete_post :: "db \<Rightarrow> oid \<Rightarrow> oid \<Rightarrow> action list \<times> db" where
  "genre_delete_post d params_id body_id =
     (case parallel2 (Genre_findById d params_id) (Book_find_genre d params_id) of
        Inl err \<Rightarrow> ([Next err], d)
      | Inr (g, genre_books) \<Rightarrow>
          if length genre_books > 0
          then ([Render (View_genre_delete ''Delete Genre'' g genre_books)], d)
          else (case Genre_findByIdAndRemove d body_id of
                  Inl err \<Rightarrow> ([Next err], d)
                | Inr d' \<Rightarrow> ([Redirect ''/catalog/genres''], d')))"

definition genre_update_get :: "db \<Rightarrow> oid \<Rightarrow> action list" where
  "genre_update_get d i =
     (case Genre_findById d i of
        Inl err \<Rightarrow> [Next err]
      | Inr None \<Rightarrow> [Next (not_found ''Genre not found'')]
      | Inr (Some g) \<Rightarrow> [Render (View_genre_form ''Update Genre'' (Some g) None)])"

definition genre_update_post :: "db \<Rightarrow> oid \<Rightarrow> genre_body \<Rightarrow> action list \<times> db" where
  "genre_update_post d i raw =
     (let (body, errors) = genre_update_validate raw;
          g = new_Genre i body
      in if errors \<noteq> []
         then ([Render (View_genre_form ''Update Genre'' (Some g) (Some errors))], d)
         else (case Genre_findByIdAndUpdate d i g of
                 Inl err \<Rightarrow> ([Next err], d)
               | Inr (None, d') \<Rightarrow> ([Raise ''TypeError''], d')
               | Inr (Some thegenre, d') \<Rightarrow> ([Redirect (genre_url thegenre)], d')))"

section \<open>Book controller\<close>

text \<open>
  The home page: five counts in parallel, and a final callback that renders whatever it
  was called with. The handler has no \<open>next\<close> parameter and never looks at \<open>err\<close>.
\<close>

definition index :: "db \<Rightarrow> action list" where
  "index d =
     (case parallel_counts
             [(''book_count'', query d BookC CountDocuments (length (books d))),
              (''book_instance_count'',
                 query d BookInstanceC CountDocuments (length (bookinstances d))),
              (''book_instance_available_count'',
                 query d BookInstanceC CountDocuments
                   (length (filter (\<lambda>c. status c = ''Available'') (bookinstances d)))),
              (''author_count'', query d AuthorC CountDocuments (length (authors d))),
              (''genre_count'', query d GenreC CountDocuments (length (genres d)))] of
        (err, results) \<Rightarrow> [Render (View_index ''Local Library Home'' err results)])"

text \<open>
  The list of books is declared as \<open>function (req, res)\<close>: the \<open>next\<close> that its
  callback calls on an error is not defined, so the call throws a ReferenceError.
\<close>

definition Book_find_sorted_populated :: "db \<Rightarrow> error + (book \<times> author option) list" where
  "Book_find_sorted_populated d =
     (case query d BookC Find (sort_key title (books d)) of
        Inl e \<Rightarrow> Inl e
      | Inr bs \<Rightarrow> populate_each (\<lambda>b. map_sum id (Pair b) (populate_author d b)) bs)"

definition book_list :: "db \<Rightarrow> action list" where
  "book_list d =
     (case Book_find_sorted_populated d of
        Inl err \<Rightarrow> [Raise ''ReferenceError: next is not defined'']
      | Inr list_books \<Rightarrow> [Render (View_book_list ''Book List'' list_books)])"

definition book_detail :: "db \<Rightarrow> oid \<Rightarrow> action list" where
  "book_detail d i =
     (case parallel2 (Book_findById_populated d i) (BookInstance_find_book d i) of
        Inl err \<Rightarrow> [Next err]
      | Inr (None, book_instance) \<Rightarrow> [Next (not_found ''Book not found'')]
      | Inr (Some b, book_instance) \<Rightarrow>
          [Render (View_book_detail (title (the_book b)) b book_instance)])"

definition no_check :: "genre \<Rightarrow> genre_option" where
  "no_check g = \<lparr>option_genre = g, checked = False\<rparr>"

definition book_create_get :: "db \<Rightarrow> action list" where
  "book_create_get d =
     (case parallel2 (Author_find d) (Genre_find d) of
        Inl err \<Rightarrow> [Next err]
      | Inr (as, gs) \<Rightarrow> [Render (View_book_form ''Create Book'' as (map no_check gs) None None)])"

text \<open>
  The loop of both Book POST handlers over the fetched genres: a genre whose
  identifier is found in the candidate's genre array gets \<open>checked\<close>.
\<close>

fun mark_checked :: "book \<Rightarrow> genre list \<Rightarrow> genre_option list" where
  "mark_checked b [] = []"
| "mark_checked b (g # gs) =
     (if genre_id g \<in> set (genre b)
      then \<lparr>option_genre = g, checked = True\<rparr>
      else no_check g) # mark_checked b gs"

definition book_create_post :: "db \<Rightarrow> oid \<Rightarrow> book_body \<Rightarrow> action list \<times> db" where
  "book_create_post d fresh raw =
     (let (body, errors) = book_validate (genre_to_array raw);
          b = new_Book fresh body
      in if errors \<noteq> []
         then (case parallel2 (Author_find d) (Genre_find d) of
                 Inl err \<Rightarrow> ([Next err], d)
               | Inr (as, gs) \<Rightarrow>
                   ([Render (View_book_form ''Create Book'' as (mark_checked b gs)
                       (Some (Book_doc b)) (Some errors))], d))
         else (case Book_save d b of
                 Inl err \<Rightarrow> ([Next err], d)
               | Inr d' \<Rightarrow> ([Redirect (book_url b)], d')))"

definition book_delete_get :: "db \<Rightarrow> oid \<Rightarrow> action list" where
  "book_delete_get d i =
     (case parallel2 (Book_findById_populated d i) (BookInstance_find_book d i) of
        Inl err \<Rightarrow> [Next err]
      | Inr (b, book_bookinstances) \<Rightarrow>
          (if b = None then [Redirect ''/catalog/books''] else []) @
          [Render (View_book_delete ''Delete Book'' b book_bookinstances)])"

definition book_delete_post :: "db \<Rightarrow> oid \<Rightarrow> action list \<times> db" where
  "book_delete_post d body_id =
     (case parallel2 (Book_findById_populated d body_id) (BookInstance_find_book d body_id) of
        Inl err \<Rightarrow> ([Next err], d)
      | Inr (b, book_bookinstances) \<Rightarrow>
          if length book_bookinstances > 0
          then ([Render (View_book_delete ''Delete Book'' b book_bookinstances)], d)
          else (case Book_findByIdAndRemove d body_id of
                  Inl err \<Rightarrow> ([Next err], d)
                | Inr d' \<Rightarrow> ([Redirect ''/catalog/books''], d')))"

text \<open>
  The update form marks the genres of the stored book: the two nested loops compare
  the identifiers of every fetched genre with those of the book's populated genres.
\<close>

definition mark_selected :: "populated_book \<Rightarrow> genre list \<Rightarrow> genre_option list" where
  "mark_selected b gs =
     map (\<lambda>g. \<lparr>option_genre = g,
               checked = list_ex (\<lambda>h. genre_id g = genre_id h) (the_genres b)\<rparr>) gs"

definition book_update_get :: "db \<Rightarrow> oid \<Rightarrow> action list" where
  "book_update_get d i =
     (case parallel3 (Book_findById_populated d i) (Author_find d) (Genre_find d) of
        Inl err \<Rightarrow> [Next err]
      | Inr (None, as, gs) \<Rightarrow> [Next (not_found ''Book not found'')]
      | Inr (Some b, as, gs) \<Rightarrow>
          [Render (View_book_form ''Update Book'' as (mark_selected b gs)
              (Some (Book_populated b)) None)])"

text \<open>
  The candidate of the update: the identifier of the URL, and for the genre the empty
  array when the field is undefined.
\<close>

definition updated_Book :: "oid \<Rightarrow> book_body \<Rightarrow> book" where
  "updated_Book i b =
     \<lparr>book_id = i, title = body_title b, author = body_author b, summary = body_summary b,
      isbn = body_isbn b,
      genre = (case body_genre b of GUndefined \<Rightarrow> [] | f \<Rightarrow> cast_genre f)\<rparr>"

definition book_update_post :: "db \<Rightarrow> oid \<Rightarrow> book_body \<Rightarrow> action list \<times> db" where
  "book_update_post d i raw =
     (let (body, errors) = book_validate (genre_to_array raw);
          b = updated_Book i body
      in if errors \<noteq> []
         then (case parallel2 (Author_find d) (Genre_find d) of
                 Inl err \<Rightarrow> ([Next err], d)
               | Inr (as, gs) \<Rightarrow>
                   ([Render (View_book_form ''Update Book'' as (mark_checked b gs)
                       (Some (Book_doc b)) (Some errors))], d))
         else (case Book_findByIdAndUpdate d i b of
                 Inl err \<Rightarrow> ([Next err], d)
               | Inr (None, d') \<Rightarrow> ([Raise ''TypeError''], d')
               | Inr (Some thebook, d') \<Rightarrow> ([Redirect (book_url thebook)], d')))"

section \<open>BookInstance controller\<close>

definition BookInstance_find_populated :: "db \<Rightarrow> error + populated_bookinstance list" where
  "BookInstance_find_populated d =
     (case query d BookInstanceC Find (bookinstances d) of
        Inl e \<Rightarrow> Inl e
      | Inr cs \<Rightarrow> populate_each (populate_book d) cs)"

definition bookinstance_list :: "db \<Rightarrow> action list" where
  "bookinstance_list d =
     (case BookInstance_find_populated d of
        Inl err \<Rightarrow> [Next err]
      | Inr list_bookinstances \<Rightarrow>
          [Render (View_bookinstance_list ''Book Instance List'' list_bookinstances)])"

text \<open>
  The title of the detail page reads \<open>bookinstance.book.title\<close>, and the update form
  \<open>bookinstance.book._id\<close>: a TypeError when the populated book is null.
\<close>

definition bookinstance_detail :: "db \<Rightarrow> oid \<Rightarrow> action list" where
  "bookinstance_detail d i =
     (case BookInstance_findById_populated d i of
        Inl err \<Rightarrow> [Next err]
      | Inr None \<Rightarrow> [Next (not_found ''Book copy not found'')]
      | Inr (Some c) \<Rightarrow>
          (case the_instance_book c of
             None \<Rightarrow> [Raise ''TypeError'']
           | Some b \<Rightarrow> [Render (View_bookinstance_detail (''Copy: '' @ title b) c)]))"

definition bookinstance_create_get :: "db \<Rightarrow> action list" where
  "bookinstance_create_get d =
     (case Book_find d of
        Inl err \<Rightarrow> [Next err]
      | Inr bs \<Rightarrow> [Render (View_bookinstance_form ''Create BookInstance'' bs None None None)])"

text \<open>
  The re-render of the BookInstance form after a failed validation passes
  \<open>selected_book: bookinstance.book._id\<close>: with a book field that did not cast, the
  candidate has no book and reading \<open>_id\<close> of undefined throws a TypeError in the
  callback of \<open>Book.find\<close>, after its error check and before \<open>res.render\<close>.
\<close>

definition bookinstance_create_post ::
    "validator \<Rightarrow> int \<Rightarrow> db \<Rightarrow> oid \<Rightarrow> bookinstance_body \<Rightarrow> action list \<times> db" where
  "bookinstance_create_post lib now d fresh raw =
     (let (body, errors) = bookinstance_validate lib raw;
          c = new_BookInstance now fresh body
      in if errors \<noteq> []
         then (case Book_find d of
                 Inl err \<Rightarrow> ([Next err], d)
               | Inr bs \<Rightarrow>
                   (case cast_ObjectId (book c) of
                      None \<Rightarrow> ([Raise ''TypeError''], d)
                    | Some selected_book \<Rightarrow>
                        ([Render (View_bookinstance_form ''Create BookInstance'' bs (Some selected_book)
                            (Some errors) (Some (BookInstance_doc c)))], d)))
         else (case BookInstance_save d c of
                 Inl err \<Rightarrow> ([Next err], d)
               | Inr d' \<Rightarrow> ([Redirect (bookinstance_url c)], d')))"

definition bookinstance_delete_get :: "db \<Rightarrow> oid \<Rightarrow> action list" where
  "bookinstance_delete_get d i =
     (case BookInstance_findById_populated d i of
        Inl err \<Rightarrow> [Next err]
      | Inr c \<Rightarrow>
          (if c = None then [Redirect ''/catalog/bookinstances''] else []) @
          [Render (View_bookinstance_delete ''Delete BookInstance'' c)])"

definition bookinstance_delete_post :: "db \<Rightarrow> oid \<Rightarrow> action list \<times> db" where
  "bookinstance_delete_post d body_id =
     (case BookInstance_findByIdAndRemove d body_id of
        Inl err \<Rightarrow> ([Next err], d)
      | Inr d' \<Rightarrow> ([Redirect ''/catalog/bookinstances''], d'))"

definition bookinstance_update_get :: "db \<Rightarrow> oid \<Rightarrow> action list" where
  "bookinstance_update_get d i =
     (case parallel2 (BookInstance_findById_populated d i) (Book_find d) of
        Inl err \<Rightarrow> [Next err]
      | Inr (None, bs) \<Rightarrow> [Next (not_found ''Book copy not found'')]
      | Inr (Some c, bs) \<Rightarrow>
          (case the_instance_book c of
             None \<Rightarrow> [Raise ''TypeError'']
           | Some b \<Rightarrow>
               [Render (View_bookinstance_form ''Update  BookInstance'' bs (Some (book_id b))
                   None (Some (BookInstance_populated c)))]))"

definition bookinstance_update_post ::
    "validator \<Rightarrow> int \<Rightarrow> db \<Rightarrow> oid \<Rightarrow> bookinstance_body \<Rightarrow> action list \<times> db" where
  "bookinstance_update_post lib now d i raw =
     (let (body, errors) = bookinstance_validate lib raw;
          c = new_BookInstance now i body
      in if errors \<noteq> []
         then (case Book_find d of
                 Inl err \<Rightarrow> ([Next err], d)
               | Inr bs \<Rightarrow>
                   (case cast_ObjectId (book c) of
                      None \<Rightarrow> ([Raise ''TypeError''], d)
                    | Some selected_book \<Rightarrow>
                        ([Render (View_bookinstance_form ''Update BookInstance'' bs (Some selected_book)
                            (Some errors) (Some (BookInstance_doc c)))], d)))
         else (case BookInstance_findByIdAndUpdate d i c of
                 Inl err \<Rightarrow> ([Next err], d)
               | Inr (None, d') \<Rightarrow> ([Raise ''TypeError''], d')
               | Inr (Some thebookinstance, d') \<Rightarrow>
                   ([Redirect (bookinstance_url thebookinstance)], d')))"

section \<open>The handlers as one function of the request\<close>

text \<open>
  One constructor for each exported handler, with what the handler reads from the
  request (\<open>req.params.id\<close>, \<open>req.body\<close>) and, for a handler that builds a new
  document, the identifier the driver generates for it.
\<close>

datatype request =
    GET_index
  | GET_author_list
  | GET_author_detail oid
  | GET_author_create
  | POST_author_create oid author_body
  | GET_author_delete oid
  | POST_author_delete oid
  | GET_author_update oid
  | POST_author_update oid author_body
  | GET_genre_list
  | GET_genre_detail oid
  | GET_genre_create
  | POST_genre_create oid genre_body
  | GET_genre_delete oid
  | POST_genre_delete oid oid
  | GET_genre_update oid
  | POST_genre_update oid genre_body
  | GET_book_list
  | GET_book_detail oid
  | GET_book_create
  | POST_book_create oid book_body
  | GET_book_delete oid
  | POST_book_delete oid
  | GET_book_update oid
  | POST_book_update oid book_body
  | GET_bookinstance_list
  | GET_bookinstance_detail oid
  | GET_bookinstance_create
  | POST_bookinstance_create oid bookinstance_body
  | GET_bookinstance_delete oid
  | POST_bookinstance_delete oid
  | GET_bookinstance_update oid
  | POST_bookinstance_update oid bookinstance_body

primrec handle :: "validator \<Rightarrow> int \<Rightarrow> db \<Rightarrow> request \<Rightarrow> action list \<times> db" where
  "handle lib now d GET_index = (index d, d)"
| "handle lib now d GET_author_list = (author_list d, d)"
| "handle lib now d (GET_author_detail i) = (author_detail d i, d)"
| "handle lib now d GET_author_create = (author_create_get, d)"
| "handle lib now d (POST_author_create fresh b) = author_create_post lib d fresh b"
| "handle lib now d (GET_author_delete i) = (author_delete_get d i, d)"
| "handle lib now d (POST_author_delete authorid) = author_delete_post d authorid"
| "handle lib now d (GET_author_update i) = (author_update_get d i, d)"
| "handle lib now d (POST_author_update i b) = author_update_post lib d i b"
| "handle lib now d GET_genre_list = (genre_list d, d)"
| "handle lib now d (GET_genre_detail i) = (genre_detail d i, d)"
| "handle lib now d GET_genre_create = (genre_create_get, d)"
| "handle lib now d (POST_genre_create fresh b) = genre_create_post d fresh b"
| "handle lib now d (GET_genre_delete i) = (genre_delete_get d i, d)"
| "handle lib now d (POST_genre_delete params_id body_id) = genre_delete_post d params_id body_id"
| "handle lib now d (GET_genre_update i) = (genre_update_get d i, d)"
| "handle lib now d (POST_genre_update i b) = genre_update_post d i b"
| "handle lib now d GET_book_list = (book_list d, d)"
| "handle lib now d (GET_book_detail i) = (book_detail d i, d)"
| "handle lib now d GET_book_create = (book_create_get d, d)"
| "handle lib now d (POST_book_create fresh b) = book_create_post d fresh b"
| "handle lib now d (GET_book_delete i) = (book_delete_get d i, d)"
| "handle lib now d (POST_book_delete body_id) = book_delete_post d body_id"
| "handle lib now d (GET_book_update i) = (book_update_get d i, d)"
| "handle lib now d (POST_book_update i b) = book_update_post d i b"
| "handle lib now d GET_bookinstance_list = (bookinstance_list d, d)"
| "handle lib now d (GET_bookinstance_detail i) = (bookinstance_detail d i, d)"
| "handle lib now d GET_bookinstance_create = (bookinstance_create_get d, d)"
| "handle lib now d (POST_bookinstance_create fresh b) =
     bookinstance_create_post lib now d fresh b"
| "handle lib now d (GET_bookinstance_delete i) = (bookinstance_delete_get d i, d)"
| "handle lib now d (POST_bookinstance_delete body_id) = bookinstance_delete_post d body_id"
| "handle lib now d (GET_bookinstance_update i) = (bookinstance_update_get d i, d)"
| "handle lib now d (POST_bookinstance_update i b) = bookinstance_update_post lib now d i b"

text \<open>
  The reads a handler issues. The tasks of an \<open>async.parallel\<close> all start, whatever
  becomes of the others. \<open>populate\<close> reads once its own query has succeeded and found
  a document: the authors for the author of a book, the genres for a non-empty genre
  array, the books for the book of a copy. A POST handler reads the option lists of its
  form only after a failed validation; the Genre create handler looks the name up only
  after a successful one.
\<close>

definition populated_book_reads :: "db \<Rightarrow> oid \<Rightarrow> (coll \<times> opk) list" where
  "populated_book_reads d i =
     (BookC, FindById) #
     (case fault d BookC FindById of
        Some e \<Rightarrow> []
      | None \<Rightarrow>
          (case find (\<lambda>b. book_id b = i) (books d) of
             None \<Rightarrow> []
           | Some b \<Rightarrow> (AuthorC, Find) # (if genre b = [] then [] else [(GenreC, Find)])))"

definition populated_bookinstance_reads :: "db \<Rightarrow> oid \<Rightarrow> (coll \<times> opk) list" where
  "populated_bookinstance_reads d i =
     (BookInstanceC, FindById) #
     (case fault d BookInstanceC FindById of
        Some e \<Rightarrow> []
      | None \<Rightarrow>
          (case find (\<lambda>c. bookinstance_id c = i) (bookinstances d) of
             None \<Rightarrow> []
           | Some c \<Rightarrow> [(BookC, Find)]))"

primrec reads :: "validator \<Rightarrow> db \<Rightarrow> request \<Rightarrow> (coll \<times> opk) list" where
  "reads lib d GET_index =
     [(BookC, CountDocuments), (BookInstanceC, CountDocuments), (BookInstanceC, CountDocuments),
      (AuthorC, CountDocuments), (GenreC, CountDocuments)]"
| "reads lib d GET_author_list = [(AuthorC, Find)]"
| "reads lib d (GET_author_detail i) = [(AuthorC, FindById), (BookC, Find)]"
| "reads lib d GET_author_create = []"
| "reads lib d (POST_author_create fresh b) = []"
| "reads lib d (GET_author_delete i) = [(AuthorC, FindById), (BookC, Find)]"
| "reads lib d (POST_author_delete authorid) = [(AuthorC, FindById), (BookC, Find)]"
| "reads lib d (GET_author_update i) = [(AuthorC, FindById)]"
| "reads lib d (POST_author_update i b) = []"
| "reads lib d GET_genre_list = [(GenreC, Find)]"
| "reads lib d (GET_genre_detail i) = [(GenreC, FindById), (BookC, Find)]"
| "reads lib d GET_genre_create = []"
| "reads lib d (POST_genre_create fresh b) =
     (if snd (genre_create_validate b) = [] then [(GenreC, FindOne)] else [])"
| "reads lib d (GET_genre_delete i) = [(GenreC, FindById), (BookC, Find)]"
| "reads lib d (POST_genre_delete params_id body_id) = [(GenreC, FindById), (BookC, Find)]"
| "reads lib d (GET_genre_update i) = [(GenreC, FindById)]"
| "reads lib d (POST_genre_update i b) = []"
| "reads lib d GET_book_list =
     (BookC, Find) #
     (if fault d BookC Find = None \<and> books d \<noteq> [] then [(AuthorC, Find)] else [])"
| "reads lib d (GET_book_detail i) = populated_book_reads d i @ [(BookInstanceC, Find)]"
| "reads lib d GET_book_create = [(AuthorC, Find), (GenreC, Find)]"
| "reads lib d (POST_book_create fresh b) =
     (if snd (book_validate (genre_to_array b)) = [] then []
      else [(AuthorC, Find), (GenreC, Find)])"
| "reads lib d (GET_book_delete i) = populated_book_reads d i @ [(BookInstanceC, Find)]"
| "reads lib d (POST_book_delete body_id) =
     populated_book_reads d body_id @ [(BookInstanceC, Find)]"
| "reads lib d (GET_book_update i) =
     populated_book_reads d i @ [(AuthorC, Find), (GenreC, Find)]"
| "reads lib d (POST_book_update i b) =
     (if snd (book_validate (genre_to_array b)) = [] then []
      else [(AuthorC, Find), (GenreC, Find)])"
| "reads lib d GET_bookinstance_list =
     (BookInstanceC, Find) #
     (if fault d BookInstanceC Find = None \<and> bookinstances d \<noteq> [] then [(BookC, Find)]
      else [])"
| "reads lib d (GET_bookinstance_detail i) = populated_bookinstance_reads d i"
| "reads lib d GET_bookinstance_create = [(BookC, Find)]"
| "reads lib d (POST_bookinstance_create fresh b) =
     (if snd (bookinstance_validate lib b) = [] then [] else [(BookC, Find)])"
| "reads lib d (GET_bookinstance_delete i) = populated_bookinstance_reads d i"
| "reads lib d (POST_bookinstance_delete body_id) = []"
| "reads lib d (GET_bookinstance_update i) =
     populated_bookinstance_reads d i @ [(BookC, Find)]"
| "reads lib d (POST_bookinstance_update i b) =
     (if snd (bookinstance_validate lib b) = [] then [] else [(BookC, Find)])"

text \<open>
  A read of the list fails; the outcome hands the error of one of these reads to
  \<open>next\<close> and leaves the store as it was.
\<close>

definition some_read_fails :: "db \<Rightarrow> (coll \<times> opk) list \<Rightarrow> bool" where
  "some_read_fails d qs \<longleftrightarrow> list_ex (\<lambda>(c, k). fault d c k \<noteq> None) qs"

definition forwards :: "db \<Rightarrow> (coll \<times> opk) list \<Rightarrow> action list \<times> db \<Rightarrow> bool" where
  "forwards d qs r \<longleftrightarrow>
     (case r of
        ([Next e], d') \<Rightarrow> d' = d \<and> list_ex (\<lambda>(c, k). fault d c k = Some e) qs
      | _ \<Rightarrow> False)"

text \<open>
  No write fails; and the outcome of a request is the one it has on the same documents
  with a store that never fails.
\<close>

definition no_write_fails :: "db \<Rightarrow> bool" where
  "no_write_fails d \<longleftrightarrow>
     list_all (\<lambda>c. fault d c Save = None \<and> fault d c FindByIdAndUpdate = None \<and>
                   fault d c FindByIdAndRemove = None)
       [AuthorC, GenreC, BookC, BookInstanceC]"

definition unaffected :: "validator \<Rightarrow> int \<Rightarrow> db \<Rightarrow> request \<Rightarrow> bool" where
  "unaffected lib now d req \<longleftrightarrow>
     handle lib now d req =
       (case handle lib now (d\<lparr>fault := (\<lambda>c k. None)\<rparr>) req of
          (acts, d') \<Rightarrow> (acts, d'\<lparr>fault := fault d\<rparr>))"

section \<open>A small library for concrete runs\<close>

definition no_fault :: "coll \<Rightarrow> opk \<Rightarrow> error option" where
  "no_fault c k = None"

definition timeout_error :: error where
  "timeout_error = \<lparr>message = ''connection timed out'', err_status = None\<rparr>"

definition store_down :: "coll \<Rightarrow> opk \<Rightarrow> error option" where
  "store_down c k = Some timeout_error"

definition leguin :: author where
  "leguin = \<lparr>author_id = ''a1'', first_name = ''Ursula'', family_name = ''LeGuin'',
              date_of_birth = None, date_of_death = None\<rparr>"

definition fantasy :: genre where
  "fantasy = \<lparr>genre_id = ''g1'', name = ''Fantasy''\<rparr>"

definition poetry :: genre where
  "poetry = \<lparr>genre_id = ''g2'', name = ''Poetry''\<rparr>"

definition earthsea :: book where
  "earthsea = \<lparr>book_id = ''b1'', title = ''Earthsea'', author = ''a1'', summary = ''S'',
                isbn = ''I'', genre = [''g1'']\<rparr>"

definition copy1 :: bookinstance where
  "copy1 = \<lparr>bookinstance_id = ''c1'', book = ''b1'', imprint = ''Ace'',
             status = ''Available'', due_back = None\<rparr>"

definition library :: db where
  "library = \<lparr>authors = [leguin], genres = [fantasy, poetry], books = [earthsea],
               bookinstances = [copy1], fault = no_fault\<rparr>"

definition library_down :: db where
  "library_down = library\<lparr>fault := store_down\<rparr>"

definition iso_dates :: validator where
  "iso_dates = \<lparr>isISO8601 = (\<lambda>s. s = ''1970-01-01''),
                 toDate = (\<lambda>s. if s = ''1970-01-01'' then Some 0 else None)\<rparr>"

section \<open>Basic facts\<close>

lemma query_ok: "fault d c k = None \<Longrightarrow> query d c k x = Inr x"
  by (simp add: query_def)

lemma query_fail: "fault d c k = Some e \<Longrightarrow> query d c k x = Inl e"
  by (simp add: query_def)

lemma escape_char_not_Nil: "escape_char c \<noteq> []"
  by (simp add: escape_char_def)

lemma escape_Nil_iff: "escape s = [] \<longleftrightarrow> s = []"
  by (cases s) (simp_all add: escape_def escape_char_not_Nil)

lemma find_Some_id: "find P xs = Some x \<Longrightarrow> P x \<and> x \<in> set xs"
  by (induction xs) (auto split: if_splits)

lemma find_None_all: "find P xs = None \<longleftrightarrow> (\<forall>x\<in>set xs. \<not> P x)"
  by (induction xs) auto

lemma library_simps:
  "authors library = [leguin]" "genres library = [fantasy, poetry]"
  "books library = [earthsea]" "bookinstances library = [copy1]"
  "fault library c k = None"
  by (simp_all add: library_def no_fault_def)

section \<open>The referential guard\<close>

text \<open>
  C1. A delete POST must not remove a document that still has dependents. The Author
  and the Book handler look up and remove by the same identifier. The Genre handler
  checks the books of the genre named in the URL and removes the genre named in the
  form: with no books in Poetry (g2) and one book in Fantasy (g1), the request with
  URL identifier g2 and form identifier g1 removes Fantasy, which then no longer
  resolves, and redirects to the list.
\<close>

theorem genre_delete_post_removes_genre_with_books:
  "Book_find_genre library ''g1'' = Inr [earthsea] \<and>
   Genre_findById library ''g1'' = Inr (Some fantasy) \<and>
   genre_delete_post library ''g2'' ''g1'' =
     ([Redirect ''/catalog/genres''], library\<lparr>genres := [poetry]\<rparr>) \<and>
   Genre_findById (snd (genre_delete_post library ''g2'' ''g1'')) ''g1'' = Inr None"
  by (simp add: genre_delete_post_def parallel2_def Genre_findById_def Book_find_genre_def
      Genre_findByIdAndRemove_def query_def library_simps
      leguin_def fantasy_def poetry_def earthsea_def copy1_def)

text \<open>
  The guard as the Author and the Book handler have it, and as the Genre handler has
  it when the URL and the form name the same genre: with the lookups succeeding, a
  target with dependents is kept and the confirmation view is rendered with them; a
  target without dependents is removed and the answer is the redirect to the list.
\<close>

lemma author_delete_post_guard:
  assumes "fault d AuthorC FindById = None" and "fault d BookC Find = None"
  shows "filter (\<lambda>b. author b = i) (books d) \<noteq> [] \<Longrightarrow>
           author_delete_post d i =
             ([Render (View_author_delete ''Delete Author''
                 (find (\<lambda>a. author_id a = i) (authors d))
                 (filter (\<lambda>b. author b = i) (books d)))], d)"
    and "filter (\<lambda>b. author b = i) (books d) = [] \<Longrightarrow>
         fault d AuthorC FindByIdAndRemove = None \<Longrightarrow>
           author_delete_post d i =
             ([Redirect ''/catalog/authors''],
              d\<lparr>authors := remove_by (\<lambda>a. author_id a = i) (authors d)\<rparr>)"
  using assms
  by (simp_all add: author_delete_post_def parallel2_def Author_findById_def
      Book_find_author_def Author_findByIdAndRemove_def query_def)

lemma genre_delete_post_guard:
  assumes "fault d GenreC FindById = None" and "fault d BookC Find = None"
  shows "filter (\<lambda>b. i \<in> set (genre b)) (books d) \<noteq> [] \<Longrightarrow>
           genre_delete_post d i i =
             ([Render (View_genre_delete ''Delete Genre''
                 (find (\<lambda>g. genre_id g = i) (genres d))
                 (filter (\<lambda>b. i \<in> set (genre b)) (books d)))], d)"
    and "filter (\<lambda>b. i \<in> set (genre b)) (books d) = [] \<Longrightarrow>
         fault d GenreC FindByIdAndRemove = None \<Longrightarrow>
           genre_delete_post d i i =
             ([Redirect ''/catalog/genres''],
              d\<lparr>genres := remove_by (\<lambda>g. genre_id g = i) (genres d)\<rparr>)"
  using assms
  by (simp_all add: genre_delete_post_def parallel2_def Genre_findById_def
      Book_find_genre_def Genre_findByIdAndRemove_def query_def)

lemma book_delete_post_guard:
  assumes "Book_findById_populated d i = Inr b" and "fault d BookInstanceC Find = None"
  shows "filter (\<lambda>c. book c = i) (bookinstances d) \<noteq> [] \<Longrightarrow>
           book_delete_post d i =
             ([Render (View_book_delete ''Delete Book'' b
                 (filter (\<lambda>c. book c = i) (bookinstances d)))], d)"
    and "filter (\<lambda>c. book c = i) (bookinstances d) = [] \<Longrightarrow>
         fault d BookC FindByIdAndRemove = None \<Longrightarrow>
           book_delete_post d i =
             ([Redirect ''/catalog/books''],
              d\<lparr>books := remove_by (\<lambda>x. book_id x = i) (books d)\<rparr>)"
  using assms
  by (simp_all add: book_delete_post_def parallel2_def BookInstance_find_book_def
      Book_findByIdAndRemove_def query_def)

text \<open>A delete GET for a target that resolves renders the confirmation view, and only that.\<close>

lemma author_delete_get_found:
  assumes "fault d AuthorC FindById = None" and "fault d BookC Find = None"
    and "find (\<lambda>a. author_id a = i) (authors d) = Some a"
  shows "author_delete_get d i =
           [Render (View_author_delete ''Delete Author'' (Some a)
              (filter (\<lambda>b. author b = i) (books d)))]"
  using assms
  by (simp add: author_delete_get_def parallel2_def Author_findById_def Book_find_author_def
      query_def)

text \<open>
  C3. A delete GET for an identifier that does not resolve redirects to the list, and
  then, for want of a \<open>return\<close>, also renders the confirmation view with a null
  target: the three handlers on identifiers the library does not hold.
\<close>

theorem delete_get_missing_target_renders_after_redirect:
  "author_delete_get library ''a9'' =
     [Redirect ''/catalog/authors'', Render (View_author_delete ''Delete Author'' None [])] \<and>
   genre_delete_get library ''g9'' =
     [Redirect ''/catalog/genres'', Render (View_genre_delete ''Delete Genre'' None [])] \<and>
   book_delete_get library ''b9'' =
     [Redirect ''/catalog/books'', Render (View_book_delete ''Delete Book'' None [])]"
  by (simp add: author_delete_get_def genre_delete_get_def book_delete_get_def parallel2_def
      Author_findById_def Genre_findById_def Book_findById_populated_def Book_find_author_def
      Book_find_genre_def BookInstance_find_book_def query_def library_simps
      leguin_def fantasy_def poetry_def earthsea_def copy1_def)

section \<open>Validation\<close>

text \<open>
  C6. The first middleware of the Book POST handlers turns the genre field into an
  array before the chains run: absent gives the empty array, a single value a
  one-element array, an array stays as it is; the chains then escape each element. So
  the candidate of an update (and of a create) whose form has no genre has the empty
  genre list.
\<close>

theorem genre_normalized_to_array:
  "body_genre (genre_to_array b) =
     GArray (case body_genre b of GUndefined \<Rightarrow> [] | GScalar s \<Rightarrow> [s] | GArray xs \<Rightarrow> xs) \<and>
   body_genre (fst (book_validate (genre_to_array b))) =
     GArray (map escape
       (case body_genre b of GUndefined \<Rightarrow> [] | GScalar s \<Rightarrow> [s] | GArray xs \<Rightarrow> xs)) \<and>
   (body_genre b = GUndefined \<longrightarrow>
      genre (updated_Book i (fst (book_validate (genre_to_array b)))) = [] \<and>
      genre (new_Book i (fst (book_validate (genre_to_array b)))) = [])"
  by (cases "body_genre b")
     (simp_all add: genre_to_array_def book_validate_def trim_isLength_escape_def Let_def
        escape_each_def updated_Book_def new_Book_def cast_genre_def)

theorem genre_normalized_to_array_witness:
  "genre (updated_Book ''b1''
     (fst (book_validate (genre_to_array
        \<lparr>body_title = ''T'', body_author = ''a1'', body_summary = ''S'', body_isbn = ''I'',
         body_genre = GUndefined\<rparr>)))) = []"
  using genre_normalized_to_array
    [of "\<lparr>body_title = ''T'', body_author = ''a1'', body_summary = ''S'', body_isbn = ''I'',
          body_genre = GUndefined\<rparr>" "''b1''"]
  by simp

text \<open>
  C8. The Genre create form accepts a name exactly when its trimmed length is at
  least 1, the Genre update form exactly when it is at least 3. A name of trimmed
  length 1 or 2 passes the create chain and fails the update chain, and the update
  handler answers with the form, the message and the unchanged store.
\<close>

theorem genre_name_thresholds:
  "(snd (genre_create_validate b) = []) = (1 \<le> length (trim (body_name b))) \<and>
   (snd (genre_update_validate b) = []) = (3 \<le> length (trim (body_name b))) \<and>
   (length (trim (body_name b)) \<in> {1, 2} \<longrightarrow>
      snd (genre_create_validate b) = [] \<and>
      snd (genre_update_validate b) =
        [\<lparr>param = ''name'', msg = ''Genre name must contain at least 3 characters'',
          val = trim (body_name b)\<rparr>] \<and>
      genre_update_post d i b =
        ([Render (View_genre_form ''Update Genre''
            (Some \<lparr>genre_id = i, name = escape (trim (body_name b))\<rparr>)
            (Some [\<lparr>param = ''name'', msg = ''Genre name must contain at least 3 characters'',
                    val = trim (body_name b)\<rparr>]))], d))"
  by (auto simp: genre_create_validate_def genre_update_validate_def trim_isLength_escape_def
      Let_def genre_update_post_def new_Genre_def)

theorem genre_name_thresholds_witness:
  "length (trim '' ab '') \<in> {1, 2} \<and>
   snd (genre_create_validate \<lparr>body_name = '' ab ''\<rparr>) = [] \<and>
   genre_update_post library ''g1'' \<lparr>body_name = '' ab ''\<rparr> =
     ([Render (View_genre_form ''Update Genre'' (Some \<lparr>genre_id = ''g1'', name = ''ab''\<rparr>)
         (Some [\<lparr>param = ''name'', msg = ''Genre name must contain at least 3 characters'',
                 val = ''ab''\<rparr>]))], library)"
proof -
  have t: "trim '' ab '' = ''ab''"
    by (simp add: trim_def is_space_def)
  have e: "escape ''ab'' = ''ab''"
    by (simp add: escape_def escape_char_def)
  show ?thesis
    using genre_name_thresholds [of "\<lparr>body_name = '' ab ''\<rparr>" library "''g1''"]
    by (simp add: t e)
qed

section \<open>Genre creation\<close>

text \<open>
  C7. A Genre create POST with a valid name (trimmed length at least 1) whose lookup
  succeeds: if a genre with the same (sanitized) name is stored, the answer is a
  redirect to the URL of such a genre and the store is unchanged; if none is stored
  and the insert succeeds, the new genre, with the generated identifier and the
  sanitized name, is appended and the answer is a redirect to its URL. The lookup and
  the insert are two separate store operations.
\<close>

theorem genre_create_lookup_before_insert:
  assumes valid: "1 \<le> length (trim (body_name raw))"
      and lookup: "fault d GenreC FindOne = None"
  shows "(list_ex (\<lambda>g. name g = escape (trim (body_name raw))) (genres d) \<longrightarrow>
            (\<exists>g \<in> set (genres d). name g = escape (trim (body_name raw)) \<and>
               genre_create_post d fresh raw = ([Redirect (genre_url g)], d))) \<and>
         (\<not> list_ex (\<lambda>g. name g = escape (trim (body_name raw))) (genres d) \<and>
          fault d GenreC Save = None \<and> fresh \<notin> set (map genre_id (genres d)) \<longrightarrow>
            genre_create_post d fresh raw =
              ([Redirect (''/catalog/genre/'' @ fresh)],
               d\<lparr>genres := genres d @
                    [\<lparr>genre_id = fresh, name = escape (trim (body_name raw))\<rparr>]\<rparr>))"
proof -
  let ?n = "escape (trim (body_name raw))"
  have v: "genre_create_validate raw = (\<lparr>body_name = ?n\<rparr>, [])"
    using valid by (simp add: genre_create_validate_def trim_isLength_escape_def Let_def)
  have ne: "?n \<noteq> []"
    using valid by (auto simp: escape_Nil_iff)
  have q: "Genre_findOne_name d ?n = Inr (find (\<lambda>g. name g = ?n) (genres d))"
    using lookup by (simp add: Genre_findOne_name_def query_def)
  show ?thesis
  proof (cases "find (\<lambda>g. name g = ?n) (genres d)")
    case None
    then have no: "\<not> list_ex (\<lambda>g. name g = ?n) (genres d)"
      by (simp add: find_None_all list_ex_iff)
    show ?thesis
      using no None v q ne
      by (auto simp: genre_create_post_def new_Genre_def Genre_save_def genre_schema_ok_def
          genre_url_def)
  next
    case (Some g)
    then have "name g = ?n \<and> g \<in> set (genres d)"
      by (auto dest: find_Some_id)
    moreover have "genre_create_post d fresh raw = ([Redirect (genre_url g)], d)"
      using Some v q by (simp add: genre_create_post_def)
    ultimately show ?thesis
      by (auto simp: list_ex_iff)
  qed
qed

theorem genre_create_lookup_before_insert_witness:
  "genre_create_post library ''g9'' \<lparr>body_name = '' Poetry ''\<rparr> =
     ([Redirect ''/catalog/genre/g2''], library) \<and>
   genre_create_post library ''g9'' \<lparr>body_name = ''Sci/Fi''\<rparr> =
     ([Redirect ''/catalog/genre/g9''],
      library\<lparr>genres := [fantasy, poetry, \<lparr>genre_id = ''g9'', name = ''Sci&#x2F;Fi''\<rparr>]\<rparr>)"
proof -
  have t1: "trim '' Poetry '' = ''Poetry''" and t2: "trim ''Sci/Fi'' = ''Sci/Fi''"
    by (simp_all add: trim_def is_space_def)
  have e1: "escape ''Poetry'' = ''Poetry''" and e2: "escape ''Sci/Fi'' = ''Sci&#x2F;Fi''"
    by (simp_all add: escape_def escape_char_def)
  show ?thesis
    using genre_create_lookup_before_insert [of "\<lparr>body_name = '' Poetry ''\<rparr>" library "''g9''"]
      genre_create_lookup_before_insert [of "\<lparr>body_name = ''Sci/Fi''\<rparr>" library "''g9''"]
    by (simp add: t1 t2 e1 e2 library_simps fantasy_def poetry_def genre_url_def)
qed

section \<open>The home page\<close>

lemma parallel_counts_no_error:
  "fst (parallel_counts ts) = None \<longleftrightarrow> (\<forall>t\<in>set ts. \<exists>n. snd t = Inr n)"
  by (induction ts rule: parallel_counts.induct) (auto split: prod.splits)

text \<open>
  C10. The home page handler renders the index view in every case and never calls
  \<open>next\<close>. The \<open>error\<close> variable of the view is null exactly when all the counts
  succeed; otherwise it is the error of a failed count.
\<close>

theorem index_always_renders:
  "(\<exists>err data. index d = [Render (View_index ''Local Library Home'' err data)] \<and>
      (err = None) =
        (fault d BookC CountDocuments = None \<and> fault d BookInstanceC CountDocuments = None \<and>
         fault d AuthorC CountDocuments = None \<and> fault d GenreC CountDocuments = None) \<and>
      (case err of None \<Rightarrow> True
       | Some e \<Rightarrow> list_ex (\<lambda>c. fault d c CountDocuments = Some e)
                     [BookC, BookInstanceC, AuthorC, GenreC])) \<and>
   list_all (\<lambda>a. case a of Next e \<Rightarrow> False | _ \<Rightarrow> True) (index d)"
  by (auto simp: index_def query_def split: option.splits)

section \<open>Updates keep the identifier\<close>


















section \<open>The book form after a failed validation\<close>






lemma escape_simple: "escape [] = []" "escape ''S'' = ''S''" "escape ''I'' = ''I''"
  "escape ''g1'' = ''g1''"
  by (simp_all add: escape_def escape_char_def)



section \<open>Store failures\<close>

lemma populate_each_ok:
  "(\<And>x. f x = Inr (g x)) \<Longrightarrow> populate_each f xs = Inr (map g xs)"
  by (induction xs) simp_all

lemma Book_findById_populated_cases:
  "Book_findById_populated d i =
     (case fault d BookC FindById of
        Some e \<Rightarrow> Inl e
      | None \<Rightarrow>
          (case find (\<lambda>b. book_id b = i) (books d) of
             None \<Rightarrow> Inr None
           | Some b \<Rightarrow>
               (case fault d AuthorC Find of
                  Some e \<Rightarrow> Inl e
                | None \<Rightarrow>
                    (case (if genre b = [] then None else fault d GenreC Find) of
                       Some e \<Rightarrow> Inl e
                     | None \<Rightarrow> Inr (Some \<lparr>the_book = b,
                          the_author = find (\<lambda>a. author_id a = author b) (authors d),
                          the_genres =
                            concat (map (\<lambda>i. case find (\<lambda>g. genre_id g = i) (genres d) of
                                           None \<Rightarrow> [] | Some g \<Rightarrow> [g]) (genre b))\<rparr>)))))"
  by (simp add: Book_findById_populated_def populate_author_genre_def populate_author_def
      populate_genre_def query_def split: option.splits)

lemma BookInstance_findById_populated_cases:
  "BookInstance_findById_populated d i =
     (case fault d BookInstanceC FindById of
        Some e \<Rightarrow> Inl e
      | None \<Rightarrow>
          (case find (\<lambda>c. bookinstance_id c = i) (bookinstances d) of
             None \<Rightarrow> Inr None
           | Some c \<Rightarrow>
               (case fault d BookC Find of
                  Some e \<Rightarrow> Inl e
                | None \<Rightarrow> Inr (Some \<lparr>the_bookinstance = c,
                     the_instance_book = find (\<lambda>b. book_id b = book c) (books d)\<rparr>))))"
  by (simp add: BookInstance_findById_populated_def populate_book_def query_def
      split: option.splits)

lemma BookInstance_find_populated_cases:
  "BookInstance_find_populated d =
     (case fault d BookInstanceC Find of
        Some e \<Rightarrow> Inl e
      | None \<Rightarrow>
          if bookinstances d = [] then Inr []
          else (case fault d BookC Find of
                  Some e \<Rightarrow> Inl e
                | None \<Rightarrow>
                    Inr (map (\<lambda>c. \<lparr>the_bookinstance = c,
                           the_instance_book = find (\<lambda>b. book_id b = book c) (books d)\<rparr>)
                          (bookinstances d))))"
proof (cases "fault d BookC Find")
  case None
  then show ?thesis
    by (simp add: BookInstance_find_populated_def query_def populate_book_def populate_each_ok
        split: option.splits)
next
  case (Some e)
  then show ?thesis
    by (cases "bookinstances d")
       (simp_all add: BookInstance_find_populated_def query_def populate_book_def
          split: option.splits)
qed

lemma Book_find_sorted_populated_cases:
  "Book_find_sorted_populated d =
     (case fault d BookC Find of
        Some e \<Rightarrow> Inl e
      | None \<Rightarrow>
          if books d = [] then Inr []
          else (case fault d AuthorC Find of
                  Some e \<Rightarrow> Inl e
                | None \<Rightarrow>
                    Inr (map (\<lambda>b. (b, find (\<lambda>a. author_id a = author b) (authors d)))
                          (sort_key title (books d)))))"
proof (cases "fault d AuthorC Find")
  case None
  then show ?thesis
    by (simp add: Book_find_sorted_populated_def query_def populate_author_def populate_each_ok
        split: option.splits)
next
  case (Some e)
  have "sort_key title (books d) \<noteq> []" if "books d \<noteq> []"
    using that by (metis length_sort list.size(3) length_0_conv)
  then show ?thesis
    using Some
    by (cases "sort_key title (books d)")
       (auto simp: Book_find_sorted_populated_def query_def populate_author_def
          split: option.splits)
qed

lemmas read_defs = Author_find_def Author_find_sorted_def Author_findById_def Genre_find_def
  Genre_find_sorted_def Genre_findById_def Genre_findOne_name_def Book_find_def
  Book_find_author_def Book_find_genre_def BookInstance_find_book_def
  Book_findById_populated_cases BookInstance_findById_populated_cases
  BookInstance_find_populated_cases Book_find_sorted_populated_cases

lemmas write_defs = Author_save_def Genre_save_def Book_save_def BookInstance_save_def
  Author_findByIdAndRemove_def Genre_findByIdAndRemove_def Book_findByIdAndRemove_def
  BookInstance_findByIdAndRemove_def Author_findByIdAndUpdate_def Genre_findByIdAndUpdate_def
  Book_findByIdAndUpdate_def BookInstance_findByIdAndUpdate_def

lemma author_get_forwarded:
  "some_read_fails d (reads lib d GET_author_list) \<Longrightarrow>
     forwards d (reads lib d GET_author_list) (handle lib now d GET_author_list)"
  "some_read_fails d (reads lib d (GET_author_detail i)) \<Longrightarrow>
     forwards d (reads lib d (GET_author_detail i)) (handle lib now d (GET_author_detail i))"
  "some_read_fails d (reads lib d GET_author_create) \<Longrightarrow>
     forwards d (reads lib d GET_author_create) (handle lib now d GET_author_create)"
  "some_read_fails d (reads lib d (GET_author_delete i)) \<Longrightarrow>
     forwards d (reads lib d (GET_author_delete i)) (handle lib now d (GET_author_delete i))"
  "some_read_fails d (reads lib d (GET_author_update i)) \<Longrightarrow>
     forwards d (reads lib d (GET_author_update i)) (handle lib now d (GET_author_update i))"
  by (auto simp: some_read_fails_def forwards_def populated_book_reads_def
      populated_bookinstance_reads_def author_list_def author_detail_def author_create_get_def author_delete_get_def author_update_get_def
      parallel2_def parallel3_def read_defs query_def Let_def
      split: option.splits prod.splits if_splits)

lemma author_get_unaffected:
  "\<not> some_read_fails d (reads lib d GET_author_list) \<Longrightarrow> no_write_fails d \<Longrightarrow>
     unaffected lib now d GET_author_list"
  "\<not> some_read_fails d (reads lib d (GET_author_detail i)) \<Longrightarrow> no_write_fails d \<Longrightarrow>
     unaffected lib now d (GET_author_detail i)"
  "\<not> some_read_fails d (reads lib d GET_author_create) \<Longrightarrow> no_write_fails d \<Longrightarrow>
     unaffected lib now d GET_author_create"
  "\<not> some_read_fails d (reads lib d (GET_author_delete i)) \<Longrightarrow> no_write_fails d \<Longrightarrow>
     unaffected lib now d (GET_author_delete i)"
  "\<not> some_read_fails d (reads lib d (GET_author_update i)) \<Longrightarrow> no_write_fails d \<Longrightarrow>
     unaffected lib now d (GET_author_update i)"
  by (auto simp: some_read_fails_def no_write_fails_def unaffected_def populated_book_reads_def
      populated_bookinstance_reads_def author_list_def author_detail_def author_create_get_def author_delete_get_def author_update_get_def
      parallel2_def parallel3_def read_defs write_defs query_def Let_def
      split: option.splits prod.splits if_splits)

lemma author_post_forwarded:
  "some_read_fails d (reads lib d (POST_author_create fresh b)) \<Longrightarrow>
     forwards d (reads lib d (POST_author_create fresh b)) (handle lib now d (POST_author_create fresh b))"
  "some_read_fails d (reads lib d (POST_author_delete i)) \<Longrightarrow>
     forwards d (reads lib d (POST_author_delete i)) (handle lib now d (POST_author_delete i))"
  "some_read_fails d (reads lib d (POST_author_update i b)) \<Longrightarrow>
     forwards d (reads lib d (POST_author_update i b)) (handle lib now d (POST_author_update i b))"
  by (auto simp: some_read_fails_def forwards_def populated_book_reads_def
      populated_bookinstance_reads_def author_create_post_def author_delete_post_def author_update_post_def
      parallel2_def parallel3_def read_defs query_def Let_def
      split: option.splits prod.splits if_splits)

lemma author_post_unaffected:
  "\<not> some_read_fails d (reads lib d (POST_author_create fresh b)) \<Longrightarrow> no_write_fails d \<Longrightarrow>
     unaffected lib now d (POST_author_create fresh b)"
  "\<not> some_read_fails d (reads lib d (POST_author_delete i)) \<Longrightarrow> no_write_fails d \<Longrightarrow>
     unaffected lib now d (POST_author_delete i)"
  "\<not> some_read_fails d (reads lib d (POST_author_update i b)) \<Longrightarrow> no_write_fails d \<Longrightarrow>
     unaffected lib now d (POST_author_update i b)"
  by (auto simp: some_read_fails_def no_write_fails_def unaffected_def populated_book_reads_def
      populated_bookinstance_reads_def author_create_post_def author_delete_post_def author_update_post_def
      parallel2_def parallel3_def read_defs write_defs query_def Let_def
      split: option.splits prod.splits if_splits)

lemma genre_get_forwarded:
  "some_read_fails d (reads lib d GET_genre_list) \<Longrightarrow>
     forwards d (reads lib d GET_genre_list) (handle lib now d GET_genre_list)"
  "some_read_fails d (reads lib d (GET_genre_detail i)) \<Longrightarrow>
     forwards d (reads lib d (GET_genre_detail i)) (handle lib now d (GET_genre_detail i))"
  "some_read_fails d (reads lib d GET_genre_create) \<Longrightarrow>
     forwards d (reads lib d GET_genre_create) (handle lib now d GET_genre_create)"
  "some_read_fails d (reads lib d (GET_genre_delete i)) \<Longrightarrow>
     forwards d (reads lib d (GET_genre_delete i)) (handle lib now d (GET_genre_delete i))"
  "some_read_fails d (reads lib d (GET_genre_update i)) \<Longrightarrow>
     forwards d (reads lib d (GET_genre_update i)) (handle lib now d (GET_genre_update i))"
  by (auto simp: some_read_fails_def forwards_def populated_book_reads_def
      populated_bookinstance_reads_def genre_list_def genre_detail_def genre_create_get_def genre_delete_get_def genre_update_get_def
      parallel2_def parallel3_def read_defs query_def Let_def
      split: option.splits prod.splits if_splits)

lemma genre_get_unaffected:
  "\<not> some_read_fails d (reads lib d GET_genre_list) \<Longrightarrow> no_write_fails d \<Longrightarrow>
     unaffected lib now d GET_genre_list"
  "\<not> some_read_fails d (reads lib d (GET_genre_detail i)) \<Longrightarrow> no_write_fails d \<Longrightarrow>
     unaffected lib now d (GET_genre_detail i)"
  "\<not> some_read_fails d (reads lib d GET_genre_create) \<Longrightarrow> no_write_fails d \<Longrightarrow>
     unaffected lib now d GET_genre_create"
  "\<not> some_read_fails d (reads lib d (GET_genre_delete i)) \<Longrightarrow> no_write_fails d \<Longrightarrow>
     unaffected lib now d (GET_genre_delete i)"
  "\<not> some_read_fails d (reads lib d (GET_genre_update i)) \<Longrightarrow> no_write_fails d \<Longrightarrow>
     unaffected lib now d (GET_genre_update i)"
  by (auto simp: some_read_fails_def no_write_fails_def unaffected_def populated_book_reads_def
      populated_bookinstance_reads_def genre_list_def genre_detail_def genre_create_get_def genre_delete_get_def genre_update_get_def
      parallel2_def parallel3_def read_defs write_defs query_def Let_def
      split: option.splits prod.splits if_splits)

lemma genre_post_forwarded:
  "some_read_fails d (reads lib d (POST_genre_create fresh b)) \<Longrightarrow>
     forwards d (reads lib d (POST_genre_create fresh b)) (handle lib now d (POST_genre_create fresh b))"
  "some_read_fails d (reads lib d (POST_genre_delete i j)) \<Longrightarrow>
     forwards d (reads lib d (POST_genre_delete i j)) (handle lib now d (POST_genre_delete i j))"
  "some_read_fails d (reads lib d (POST_genre_update i b)) \<Longrightarrow>
     forwards d (reads lib d (POST_genre_update i b)) (handle lib now d (POST_genre_update i b))"
  by (auto simp: some_read_fails_def forwards_def populated_book_reads_def
      populated_bookinstance_reads_def genre_create_post_def genre_delete_post_def genre_update_post_def
      parallel2_def parallel3_def read_defs query_def Let_def
      split: option.splits prod.splits if_splits)

lemma genre_post_unaffected:
  "\<not> some_read_fails d (reads lib d (POST_genre_create fresh b)) \<Longrightarrow> no_write_fails d \<Longrightarrow>
     unaffected lib now d (POST_genre_create fresh b)"
  "\<not> some_read_fails d (reads lib d (POST_genre_delete i j)) \<Longrightarrow> no_write_fails d \<Longrightarrow>
     unaffected lib now d (POST_genre_delete i j)"
  "\<not> some_read_fails d (reads lib d (POST_genre_update i b)) \<Longrightarrow> no_write_fails d \<Longrightarrow>
     unaffected lib now d (POST_genre_update i b)"
  by (auto simp: some_read_fails_def no_write_fails_def unaffected_def populated_book_reads_def
      populated_bookinstance_reads_def genre_create_post_def genre_delete_post_def genre_update_post_def
      parallel2_def parallel3_def read_defs write_defs query_def Let_def
      split: option.splits prod.splits if_splits)

lemma book_get_forwarded:
  "some_read_fails d (reads lib d (GET_book_detail i)) \<Longrightarrow>
     forwards d (reads lib d (GET_book_detail i)) (handle lib now d (GET_book_detail i))"
  "some_read_fails d (reads lib d GET_book_create) \<Longrightarrow>
     forwards d (reads lib d GET_book_create) (handle lib now d GET_book_create)"
  "some_read_fails d (reads lib d (GET_book_delete i)) \<Longrightarrow>
     forwards d (reads lib d (GET_book_delete i)) (handle lib now d (GET_book_delete i))"
  "some_read_fails d (reads lib d (GET_book_update i)) \<Longrightarrow>
     forwards d (reads lib d (GET_book_update i)) (handle lib now d (GET_book_update i))"
  by (auto simp: some_read_fails_def forwards_def populated_book_reads_def
      populated_bookinstance_reads_def book_detail_def book_create_get_def book_delete_get_def book_update_get_def
      parallel2_def parallel3_def read_defs query_def Let_def
      split: option.splits prod.splits if_splits)

lemma book_get_unaffected:
  "\<not> some_read_fails d (reads lib d (GET_book_detail i)) \<Longrightarrow> no_write_fails d \<Longrightarrow>
     unaffected lib now d (GET_book_detail i)"
  "\<not> some_read_fails d (reads lib d GET_book_create) \<Longrightarrow> no_write_fails d \<Longrightarrow>
     unaffected lib now d GET_book_create"
  "\<not> some_read_fails d (reads lib d (GET_book_delete i)) \<Longrightarrow> no_write_fails d \<Longrightarrow>
     unaffected lib now d (GET_book_delete i)"
  "\<not> some_read_fails d (reads lib d (GET_book_update i)) \<Longrightarrow> no_write_fails d \<Longrightarrow>
     unaffected lib now d (GET_book_update i)"
  by (auto simp: some_read_fails_def no_write_fails_def unaffected_def populated_book_reads_def
      populated_bookinstance_reads_def book_detail_def book_create_get_def book_delete_get_def book_update_get_def
      parallel2_def parallel3_def read_defs write_defs query_def Let_def
      split: option.splits prod.splits if_splits)

lemma book_post_forwarded:
  "some_read_fails d (reads lib d (POST_book_create fresh b)) \<Longrightarrow>
     forwards d (reads lib d (POST_book_create fresh b)) (handle lib now d (POST_book_create fresh b))"
  "some_read_fails d (reads lib d (POST_book_delete i)) \<Longrightarrow>
     forwards d (reads lib d (POST_book_delete i)) (handle lib now d (POST_book_delete i))"
  "some_read_fails d (reads lib d (POST_book_update i b)) \<Longrightarrow>
     forwards d (reads lib d (POST_book_update i b)) (handle lib now d (POST_book_update i b))"
  by (auto simp: some_read_fails_def forwards_def populated_book_reads_def
      populated_bookinstance_reads_def book_create_post_def book_delete_post_def book_update_post_def
      parallel2_def parallel3_def read_defs query_def Let_def
      split: option.splits prod.splits if_splits)

lemma book_post_unaffected:
  "\<not> some_read_fails d (reads lib d (POST_book_create fresh b)) \<Longrightarrow> no_write_fails d \<Longrightarrow>
     unaffected lib now d (POST_book_create fresh b)"
  "\<not> some_read_fails d (reads lib d (POST_book_delete i)) \<Longrightarrow> no_write_fails d \<Longrightarrow>
     unaffected lib now d (POST_book_delete i)"
  "\<not> some_read_fails d (reads lib d (POST_book_update i b)) \<Longrightarrow> no_write_fails d \<Longrightarrow>
     unaffected lib now d (POST_book_update i b)"
  by (auto simp: some_read_fails_def no_write_fails_def unaffected_def populated_book_reads_def
      populated_bookinstance_reads_def book_create_post_def book_delete_post_def book_update_post_def
      parallel2_def parallel3_def read_defs write_defs query_def Let_def
      split: option.splits prod.splits if_splits)

lemma bookinstance_get_forwarded:
  "some_read_fails d (reads lib d GET_bookinstance_list) \<Longrightarrow>
     forwards d (reads lib d GET_bookinstance_list) (handle lib now d GET_bookinstance_list)"
  "some_read_fails d (reads lib d (GET_bookinstance_detail i)) \<Longrightarrow>
     forwards d (reads lib d (GET_bookinstance_detail i)) (handle lib now d (GET_bookinstance_detail i))"
  "some_read_fails d (reads lib d GET_bookinstance_create) \<Longrightarrow>
     forwards d (reads lib d GET_bookinstance_create) (handle lib now d GET_bookinstance_create)"
  "some_read_fails d (reads lib d (GET_bookinstance_delete i)) \<Longrightarrow>
     forwards d (reads lib d (GET_bookinstance_delete i)) (handle lib now d (GET_bookinstance_delete i))"
  "some_read_fails d (reads lib d (GET_bookinstance_update i)) \<Longrightarrow>
     forwards d (reads lib d (GET_bookinstance_update i)) (handle lib now d (GET_bookinstance_update i))"
  by (auto simp: some_read_fails_def forwards_def populated_book_reads_def
      populated_bookinstance_reads_def bookinstance_list_def bookinstance_detail_def bookinstance_create_get_def bookinstance_delete_get_def bookinstance_update_get_def
      parallel2_def parallel3_def read_defs query_def Let_def
      split: option.splits prod.splits if_splits)

lemma bookinstance_get_unaffected:
  "\<not> some_read_fails d (reads lib d GET_bookinstance_list) \<Longrightarrow> no_write_fails d \<Longrightarrow>
     unaffected lib now d GET_bookinstance_list"
  "\<not> some_read_fails d (reads lib d (GET_bookinstance_detail i)) \<Longrightarrow> no_write_fails d \<Longrightarrow>
     unaffected lib now d (GET_bookinstance_detail i)"
  "\<not> some_read_fails d (reads lib d GET_bookinstance_create) \<Longrightarrow> no_write_fails d \<Longrightarrow>
     unaffected lib now d GET_bookinstance_create"
  "\<not> some_read_fails d (reads lib d (GET_bookinstance_delete i)) \<Longrightarrow> no_write_fails d \<Longrightarrow>
     unaffected lib now d (GET_bookinstance_delete i)"
  "\<not> some_read_fails d (reads lib d (GET_bookinstance_update i)) \<Longrightarrow> no_write_fails d \<Longrightarrow>
     unaffected lib now d (GET_bookinstance_update i)"
  by (auto simp: some_read_fails_def no_write_fails_def unaffected_def populated_book_reads_def
      populated_bookinstance_reads_def bookinstance_list_def bookinstance_detail_def bookinstance_create_get_def bookinstance_delete_get_def bookinstance_update_get_def
      parallel2_def parallel3_def read_defs write_defs query_def Let_def
      split: option.splits prod.splits if_splits)

lemma bookinstance_post_forwarded:
  "some_read_fails d (reads lib d (POST_bookinstance_create fresh b)) \<Longrightarrow>
     forwards d (reads lib d (POST_bookinstance_create fresh b)) (handle lib now d (POST_bookinstance_create fresh b))"
  "some_read_fails d (reads lib d (POST_bookinstance_delete i)) \<Longrightarrow>
     forwards d (reads lib d (POST_bookinstance_delete i)) (handle lib now d (POST_bookinstance_delete i))"
  "some_read_fails d (reads lib d (POST_bookinstance_update i b)) \<Longrightarrow>
     forwards d (reads lib d (POST_bookinstance_update i b)) (handle lib now d (POST_bookinstance_update i b))"
  by (auto simp: some_read_fails_def forwards_def populated_book_reads_def
      populated_bookinstance_reads_def bookinstance_create_post_def bookinstance_delete_post_def bookinstance_update_post_def
      parallel2_def parallel3_def read_defs query_def Let_def
      split: option.splits prod.splits if_splits)

lemma bookinstance_post_unaffected:
  "\<not> some_read_fails d (reads lib d (POST_bookinstance_create fresh b)) \<Longrightarrow> no_write_fails d \<Longrightarrow>
     unaffected lib now d (POST_bookinstance_create fresh b)"
  "\<not> some_read_fails d (reads lib d (POST_bookinstance_delete i)) \<Longrightarrow> no_write_fails d \<Longrightarrow>
     unaffected lib now d (POST_bookinstance_delete i)"
  "\<not> some_read_fails d (reads lib d (POST_bookinstance_update i b)) \<Longrightarrow> no_write_fails d \<Longrightarrow>
     unaffected lib now d (POST_bookinstance_update i b)"
  by (auto simp: some_read_fails_def no_write_fails_def unaffected_def populated_book_reads_def
      populated_bookinstance_reads_def bookinstance_create_post_def bookinstance_delete_post_def bookinstance_update_post_def
      parallel2_def parallel3_def read_defs write_defs query_def Let_def
      split: option.splits prod.splits if_splits)

lemma home_and_book_list_unaffected:
  "\<not> some_read_fails d (reads lib d GET_index) \<Longrightarrow> no_write_fails d \<Longrightarrow>
     unaffected lib now d GET_index"
  "\<not> some_read_fails d (reads lib d GET_book_list) \<Longrightarrow> no_write_fails d \<Longrightarrow>
     unaffected lib now d GET_book_list"
  by (auto simp: some_read_fails_def no_write_fails_def unaffected_def populated_book_reads_def
      populated_bookinstance_reads_def index_def book_list_def
      parallel2_def parallel3_def read_defs write_defs query_def Let_def
      split: option.splits prod.splits if_splits)

text \<open>
  C4, as amended. For every handler but the home page (the list of books is left
  out): when a read the handler issues fails, the handler does nothing but pass the
  error of one of its reads to \<open>next\<close>, and the store is as it was. The reads
  listed are all the reads there are: when none of them fails, and no write, the
  outcome is the one of a store that never fails. The error handler of the application
  renders the error view with the message of the error, with the status of the error
  when it has a non-zero one and 500 otherwise, and with the error object itself in
  development mode only.
\<close>

theorem store_read_failure_forwarded:
  "(req \<noteq> GET_index \<and> req \<noteq> GET_book_list \<and> some_read_fails d (reads lib d req) \<longrightarrow>
      forwards d (reads lib d req) (handle lib now d req)) \<and>
   (\<not> some_read_fails d (reads lib d req) \<and> no_write_fails d \<longrightarrow>
      unaffected lib now d req) \<and>
   error_handler env err =
     Render (View_error
       (case err_status err of None \<Rightarrow> 500 | Some s \<Rightarrow> if s = 0 then 500 else s)
       (message err)
       (if env = ''development'' then Some err else None))"
proof -
  have "forwards d (reads lib d req) (handle lib now d req)"
    if "req \<noteq> GET_index" "req \<noteq> GET_book_list" "some_read_fails d (reads lib d req)"
    using that
    by (cases req)
       (simp_all only: author_get_forwarded author_post_forwarded genre_get_forwarded
          genre_post_forwarded book_get_forwarded book_post_forwarded
          bookinstance_get_forwarded bookinstance_post_forwarded,
        simp_all)
  moreover have "\<not> some_read_fails d (reads lib d req) \<longrightarrow> no_write_fails d \<longrightarrow>
      unaffected lib now d req"
    by (cases req; hypsubst; intro impI;
        rule author_get_unaffected author_post_unaffected genre_get_unaffected
          genre_post_unaffected book_get_unaffected book_post_unaffected
          bookinstance_get_unaffected bookinstance_post_unaffected
          home_and_book_list_unaffected;
        assumption)
  moreover have "error_handler env err =
     Render (View_error
       (case err_status err of None \<Rightarrow> 500 | Some s \<Rightarrow> if s = 0 then 500 else s)
       (message err)
       (if env = ''development'' then Some err else None))"
    by (simp add: error_handler_def)
  ultimately show ?thesis by blast
qed

theorem store_read_failure_forwarded_witness:
  "some_read_fails library_down (reads iso_dates library_down (GET_book_update ''b9'')) \<and>
   forwards library_down (reads iso_dates library_down (GET_book_update ''b9''))
     (handle iso_dates 0 library_down (GET_book_update ''b9'')) \<and>
   \<not> some_read_fails library (reads iso_dates library (GET_book_update ''b1'')) \<and>
   no_write_fails library \<and>
   unaffected iso_dates 0 library (GET_book_update ''b1'') \<and>
   error_handler ''production'' timeout_error =
     Render (View_error 500 ''connection timed out'' None) \<and>
   error_handler ''development'' (not_found ''Book not found'') =
     Render (View_error 404 ''Book not found'' (Some (not_found ''Book not found''))) \<and>
   error_handler ''production'' \<lparr>message = ''zero'', err_status = Some 0\<rparr> =
     Render (View_error 500 ''zero'' None)"
proof -
  have f: "some_read_fails library_down (reads iso_dates library_down (GET_book_update ''b9''))"
    by (simp add: some_read_fails_def populated_book_reads_def library_down_def store_down_def)
  have g: "\<not> some_read_fails library (reads iso_dates library (GET_book_update ''b1''))"
    "no_write_fails library"
    by (simp_all add: some_read_fails_def no_write_fails_def populated_book_reads_def
        library_simps earthsea_def)
  show ?thesis
    using f g
      store_read_failure_forwarded
        [where req = "GET_book_update ''b9''" and d = library_down and lib = iso_dates
           and now = 0 and env = "''production''" and err = timeout_error]
      store_read_failure_forwarded
        [where req = "GET_book_update ''b1''" and d = library and lib = iso_dates
           and now = 0 and env = "''development''" and err = "not_found ''Book not found''"]
      store_read_failure_forwarded
        [where env = "''production''" and err = "\<lparr>message = ''zero'', err_status = Some 0\<rparr>"]
    by (simp add: timeout_error_def not_found_def)
qed

text \<open>
  C4, counterexample. The home page with every store operation failing: the count fails,
  and the handler renders the index view with the error instead of passing it to
  \<open>next\<close>.
\<close>

theorem index_store_failure_not_forwarded:
  "some_read_fails library_down (reads iso_dates library_down GET_index) \<and>
   handle iso_dates 0 library_down GET_index =
     ([Render (View_index ''Local Library Home'' (Some timeout_error) [])], library_down) \<and>
   \<not> forwards library_down (reads iso_dates library_down GET_index)
       (handle iso_dates 0 library_down GET_index)"
  by (simp add: some_read_fails_def forwards_def index_def query_def library_down_def
      store_down_def)

text \<open>
  The list of books with a failing query: the callback's call of the undefined
  \<open>next\<close> throws, nothing is passed on and nothing is rendered.
\<close>

lemma book_list_store_failure_throws:
  "some_read_fails d (reads lib d GET_book_list) \<Longrightarrow>
   book_list d = [Raise ''ReferenceError: next is not defined'']"
  by (auto simp: some_read_fails_def book_list_def Book_find_sorted_populated_cases
      split: option.splits if_splits)

text \<open>
  The update form of a book that is not in the store, with only the list of authors
  failing: the three tasks run in parallel, and the error goes to \<open>next\<close>. The detail
  page of a book without genres, with only the genres failing: no genre is read, and
  the page is rendered.
\<close>

lemma book_update_get_missing_book_authors_fail:
  "book_update_get
     (library\<lparr>fault := (\<lambda>c k. if c = AuthorC \<and> k = Find then Some timeout_error else None)\<rparr>)
     ''b9'' = [Next timeout_error]"
  by (simp add: book_update_get_def parallel3_def parallel2_def Book_findById_populated_cases
      Author_find_def Genre_find_def query_def library_simps library_def earthsea_def)

lemma book_detail_no_genres_genres_fail:
  "book_detail
     (library\<lparr>books := [earthsea\<lparr>genre := []\<rparr>],
        fault := (\<lambda>c k. if c = GenreC \<and> k = Find then Some timeout_error else None)\<rparr>)
     ''b1'' =
   [Render (View_book_detail ''Earthsea''
      \<lparr>the_book = earthsea\<lparr>genre := []\<rparr>, the_author = Some leguin, the_genres = []\<rparr>
      [copy1])]"
  by (simp add: book_detail_def parallel2_def Book_findById_populated_cases
      BookInstance_find_book_def query_def library_def earthsea_def leguin_def copy1_def)

section \<open>Forms after a failed validation\<close>

lemma author_create_post_invalid:
  assumes "author_validate lib raw = (body, errors)" "errors \<noteq> []"
  shows "author_create_post lib d fresh raw =
     ([Render (View_author_form ''Create Author'' (Some (Author_body body)) (Some errors))], d)"
  using assms by (simp add: author_create_post_def)

lemma author_update_post_invalid:
  assumes "author_validate lib raw = (body, errors)" "errors \<noteq> []"
  shows "author_update_post lib d i raw =
     ([Render (View_author_form ''Update Author'' (Some (Author_doc (new_Author i body)))
         (Some errors))], d)"
  using assms by (simp add: author_update_post_def Let_def)

lemma genre_create_post_invalid:
  assumes "genre_create_validate raw = (body, errors)" "errors \<noteq> []"
  shows "genre_create_post d fresh raw =
     ([Render (View_genre_form ''Create Genre'' (Some (new_Genre fresh body)) (Some errors))], d)"
  using assms by (simp add: genre_create_post_def Let_def)

lemma genre_update_post_invalid:
  assumes "genre_update_validate raw = (body, errors)" "errors \<noteq> []"
  shows "genre_update_post d i raw =
     ([Render (View_genre_form ''Update Genre'' (Some (new_Genre i body)) (Some errors))], d)"
  using assms by (simp add: genre_update_post_def Let_def)

lemma book_post_invalid_store:
  assumes "snd (book_validate (genre_to_array raw)) \<noteq> []"
  shows "snd (book_create_post d fresh raw) = d" "snd (book_update_post d i raw) = d"
proof -
  obtain body errors where v: "book_validate (genre_to_array raw) = (body, errors)"
    by (cases "book_validate (genre_to_array raw)") auto
  then have e: "errors \<noteq> []"
    using assms by simp
  show "snd (book_create_post d fresh raw) = d"
    by (cases "parallel2 (Author_find d) (Genre_find d)")
       (auto simp: book_create_post_def v e Let_def)
  show "snd (book_update_post d i raw) = d"
    by (cases "parallel2 (Author_find d) (Genre_find d)")
       (auto simp: book_update_post_def v e Let_def)
qed

lemma bookinstance_post_invalid_store:
  assumes "snd (bookinstance_validate lib raw) \<noteq> []"
  shows "snd (bookinstance_create_post lib now d fresh raw) = d"
    "snd (bookinstance_update_post lib now d i raw) = d"
proof -
  obtain body errors where v: "bookinstance_validate lib raw = (body, errors)"
    by (cases "bookinstance_validate lib raw") auto
  then have e: "errors \<noteq> []"
    using assms by simp
  show "snd (bookinstance_create_post lib now d fresh raw) = d"
    by (cases "Book_find d")
       (auto simp: bookinstance_create_post_def v e Let_def cast_ObjectId_def)
  show "snd (bookinstance_update_post lib now d i raw) = d"
    by (cases "Book_find d")
       (auto simp: bookinstance_update_post_def v e Let_def cast_ObjectId_def)
qed

lemma bookinstance_create_post_invalid:
  assumes "bookinstance_validate lib raw = (body, errors)" "errors \<noteq> []"
    "fault d BookC Find = None"
  shows "bookinstance_create_post lib now d fresh raw =
     (if body_book body = [] then ([Raise ''TypeError''], d)
      else ([Render (View_bookinstance_form ''Create BookInstance'' (books d)
               (Some (body_book body)) (Some errors)
               (Some (BookInstance_doc (new_BookInstance now fresh body))))], d))"
  using assms
  by (simp add: bookinstance_create_post_def Let_def Book_find_def query_def cast_ObjectId_def
      new_BookInstance_def)

lemma bookinstance_update_post_invalid:
  assumes "bookinstance_validate lib raw = (body, errors)" "errors \<noteq> []"
    "fault d BookC Find = None"
  shows "bookinstance_update_post lib now d i raw =
     (if body_book body = [] then ([Raise ''TypeError''], d)
      else ([Render (View_bookinstance_form ''Update BookInstance'' (books d)
               (Some (body_book body)) (Some errors)
               (Some (BookInstance_doc (new_BookInstance now i body))))], d))"
  using assms
  by (simp add: bookinstance_update_post_def Let_def Book_find_def query_def cast_ObjectId_def
      new_BookInstance_def)

lemma author_validate_empty_first_name:
  assumes "trim (body_first_name raw) = []"
  shows "\<exists>body errors. author_validate lib raw =
      (body, \<lparr>param = ''first_name'', msg = ''First name must be specified.'', val = []\<rparr> #
             \<lparr>param = ''first_name'', msg = ''First name has non-alphanumeric characters.'',
               val = []\<rparr> # errors) \<and> body_first_name body = []"
  using assms
  by (simp add: author_validate_def name_chain_def Let_def escape_simple isAlphanumeric_def
      split: prod.splits)

text \<open>
  What holds of every create and update POST whose validation yields errors: the store
  is as it was. The Author and Genre handlers answer with the form, the sanitized
  candidate and the errors in order; so do the Book handlers once both lists are
  fetched, and the BookInstance handlers once the books are fetched and the book of the
  form is not blank.
\<close>

lemma invalid_post_store_unchanged:
  "snd (author_validate lib ra) \<noteq> [] \<Longrightarrow> snd (author_create_post lib d fresh ra) = d"
  "snd (author_validate lib ra) \<noteq> [] \<Longrightarrow> snd (author_update_post lib d i ra) = d"
  "snd (genre_create_validate rg) \<noteq> [] \<Longrightarrow> snd (genre_create_post d fresh rg) = d"
  "snd (genre_update_validate rg) \<noteq> [] \<Longrightarrow> snd (genre_update_post d i rg) = d"
  "snd (book_validate (genre_to_array rb)) \<noteq> [] \<Longrightarrow> snd (book_create_post d fresh rb) = d"
  "snd (book_validate (genre_to_array rb)) \<noteq> [] \<Longrightarrow> snd (book_update_post d i rb) = d"
  "snd (bookinstance_validate lib rc) \<noteq> [] \<Longrightarrow>
     snd (bookinstance_create_post lib now d fresh rc) = d"
  "snd (bookinstance_validate lib rc) \<noteq> [] \<Longrightarrow>
     snd (bookinstance_update_post lib now d i rc) = d"
proof -
  show "snd (author_validate lib ra) \<noteq> [] \<Longrightarrow> snd (author_create_post lib d fresh ra) = d"
    by (cases "author_validate lib ra") (simp add: author_create_post_invalid)
  show "snd (author_validate lib ra) \<noteq> [] \<Longrightarrow> snd (author_update_post lib d i ra) = d"
    by (cases "author_validate lib ra") (simp add: author_update_post_invalid)
  show "snd (genre_create_validate rg) \<noteq> [] \<Longrightarrow> snd (genre_create_post d fresh rg) = d"
    by (cases "genre_create_validate rg") (simp add: genre_create_post_invalid)
  show "snd (genre_update_validate rg) \<noteq> [] \<Longrightarrow> snd (genre_update_post d i rg) = d"
    by (cases "genre_update_validate rg") (simp add: genre_update_post_invalid)
  show "snd (book_validate (genre_to_array rb)) \<noteq> [] \<Longrightarrow>
      snd (book_create_post d fresh rb) = d"
    by (rule book_post_invalid_store)
  show "snd (book_validate (genre_to_array rb)) \<noteq> [] \<Longrightarrow> snd (book_update_post d i rb) = d"
    by (rule book_post_invalid_store)
  show "snd (bookinstance_validate lib rc) \<noteq> [] \<Longrightarrow>
     snd (bookinstance_create_post lib now d fresh rc) = d"
    by (rule bookinstance_post_invalid_store)
  show "snd (bookinstance_validate lib rc) \<noteq> [] \<Longrightarrow>
     snd (bookinstance_update_post lib now d i rc) = d"
    by (rule bookinstance_post_invalid_store)
qed

lemma author_create_post_empty_first_name:
  assumes "trim (body_first_name ra) = []"
  shows "\<exists>errors.
     author_create_post lib d fresh ra =
       ([Render (View_author_form ''Create Author''
           (Some (Author_body (fst (author_validate lib ra))))
           (Some (\<lparr>param = ''first_name'', msg = ''First name must be specified.'',
                    val = []\<rparr> # errors)))], d) \<and>
     body_first_name (fst (author_validate lib ra)) = []"
proof -
  obtain body errors where v:
    "author_validate lib ra =
       (body, \<lparr>param = ''first_name'', msg = ''First name must be specified.'', val = []\<rparr> #
              \<lparr>param = ''first_name'', msg = ''First name has non-alphanumeric characters.'',
                val = []\<rparr> # errors)" "body_first_name body = []"
    using author_validate_empty_first_name [OF assms] by blast
  then show ?thesis
    by (auto simp: author_create_post_invalid)
qed

text \<open>
  C5. A create or update POST whose validation yields errors must answer with the
  form again. A BookInstance POST whose book field is blank fails the validation of
  that field; the store is unchanged and the books are fetched, but the handler then
  reads \<open>bookinstance.book._id\<close> of a candidate without a book and throws: no form is
  rendered, for the create and for the update alike.
\<close>

theorem bookinstance_post_blank_book_throws:
  "snd (bookinstance_validate iso_dates
          \<lparr>body_book = [], body_imprint = ''Ace'', body_status = ''Available'',
           body_due_back = Undefined\<rparr>) =
     [\<lparr>param = ''book'', msg = ''Book must be specified'', val = []\<rparr>] \<and>
   bookinstance_create_post iso_dates 7 library ''c9''
       \<lparr>body_book = [], body_imprint = ''Ace'', body_status = ''Available'',
        body_due_back = Undefined\<rparr> =
     ([Raise ''TypeError''], library) \<and>
   bookinstance_update_post iso_dates 7 library ''c1''
       \<lparr>body_book = [], body_imprint = ''Ace'', body_status = ''Available'',
        body_due_back = Undefined\<rparr> =
     ([Raise ''TypeError''], library)"
proof -
  let ?c = "\<lparr>body_book = [], body_imprint = ''Ace'', body_status = ''Available'',
           body_due_back = Undefined\<rparr>"
  have v: "bookinstance_validate iso_dates ?c =
      (\<lparr>body_book = [], body_imprint = ''Ace'', body_status = ''Available'',
        body_due_back = Undefined\<rparr>,
       [\<lparr>param = ''book'', msg = ''Book must be specified'', val = []\<rparr>])"
    by code_simp
  show ?thesis
    using bookinstance_create_post_invalid [OF v, of library 7 "''c9''"]
      bookinstance_update_post_invalid [OF v, of library 7 "''c1''"]
    by (simp add: v library_simps)
qed

end
